theory Spec2Isabelle
  imports Complex_Main "HOL-Library.AList"
begin

section \<open>Data model\<close>

text \<open>
  Grid cells are pairs \<open>(x, y)\<close> of Python integers. The facing of an agent is the
  simulator's four-valued direction enum, read by the planner through \<open>agent.dir.value\<close>
  (\<open>direction_map = {0: 'UP', 1: 'DOWN', 2: 'LEFT', 3: 'RIGHT'}\<close>).
\<close>

type_synonym pos = "int \<times> int"

datatype Direction = UP | DOWN | LEFT_dir | RIGHT_dir

text \<open>
  Modelled from the spec: the module \<open>shared_functions/enums.py\<close> that declares the
  \<open>Action\<close> enum is not part of the sources; the action vocabulary is
  \<open>NOOP=0, FORWARD=1, TURN_LEFT=2, TURN_RIGHT=3, TOGGLE_LOAD=4\<close>, which agrees with the
  table \<open>action_names\<close> of both planners. The members are named as the code names them
  (\<open>Action.LEFT\<close>, \<open>Action.RIGHT\<close>).
\<close>

datatype Action = NOOP | FORWARD | LEFT | RIGHT | TOGGLE_LOAD

fun Action_value :: "Action \<Rightarrow> int" where
  "Action_value NOOP = 0"
| "Action_value FORWARD = 1"
| "Action_value LEFT = 2"
| "Action_value RIGHT = 3"
| "Action_value TOGGLE_LOAD = 4"

datatype py_error = KeyError | ValueError | TypeError | ZeroDivisionError | IndexError | UnboundLocalError

record Shelf =
  shelf_id :: nat
  shelf_x :: int
  shelf_y :: int
  weight :: int

text \<open>
  Battery levels are numbers that the controller divides by the capacity; they are modelled
  as exact reals (the rounding of Python floats is not modelled).
\<close>

record Agent =
  agent_id :: nat
  agent_x :: int
  agent_y :: int
  agent_dir :: Direction
  battery_level :: real
  max_carry_weight :: int
  carrying_shelf :: "Shelf option"
  is_charging :: bool

datatype AgentState = seek_shelf | deliver | return_shelf | charging | no_shelf_to_carry

text \<open>
  The part of the simulator's state that the controller reads: \<open>grid_size = (rows, cols)\<close>,
  the obstacle matrix indexed \<open>obstacles[y, x]\<close>, the agents in processing order, all
  shelves, the open request queue, the goal cells, the battery capacity and the simulator's
  own step counter.
\<close>

record Env =
  grid_rows :: int
  grid_cols :: int
  obstacles :: "bool list list"
  agents :: "Agent list"
  shelfs :: "Shelf list"
  request_queue :: "Shelf list"
  goals :: "pos list"
  battery_capacity :: real
  env_current_step :: int

section \<open>Blocked cells (\<open>shared_functions/shelf_helper.py\<close>)\<close>

text \<open>
  \<open>ShelfHelper\<close> records, when it is constructed, the position of every shelf
  (\<open>shelf_memory\<close>, by shelf id, unclamped) and the set of shelf cells clamped into the
  grid (\<open>shelf_locations\<close>). Neither is refreshed afterwards.
\<close>

record ShelfHelper =
  helper_rows :: int
  helper_cols :: int
  shelf_memory :: "nat \<rightharpoonup> pos"
  shelf_locations :: "pos set"

definition initialize_shelf_memory :: "Shelf list \<Rightarrow> (nat \<rightharpoonup> pos)" where
  "initialize_shelf_memory ss =
     foldl (\<lambda>m s. m(shelf_id s \<mapsto> (shelf_x s, shelf_y s))) Map.empty ss"

definition extract_shelf_locations :: "int \<Rightarrow> int \<Rightarrow> Shelf list \<Rightarrow> pos set" where
  "extract_shelf_locations rows cols ss =
     set (map (\<lambda>s. (max 0 (min (shelf_x s) (cols - 1)), max 0 (min (shelf_y s) (rows - 1)))) ss)"

definition ShelfHelper_init :: "Env \<Rightarrow> ShelfHelper" where
  "ShelfHelper_init env =
     \<lparr> helper_rows = grid_rows env, helper_cols = grid_cols env,
       shelf_memory = initialize_shelf_memory (shelfs env),
       shelf_locations = extract_shelf_locations (grid_rows env) (grid_cols env) (shelfs env) \<rparr>"

text \<open>The cells \<open>(x, y)\<close> with \<open>obstacles[y, x]\<close> set, rows and columns by index.\<close>

definition obstacle_cells :: "bool list list \<Rightarrow> pos set" where
  "obstacle_cells obs =
     set [(int xi, int yi). yi \<leftarrow> [0 ..< length obs], xi \<leftarrow> [0 ..< length (obs ! yi)],
                            obs ! yi ! xi]"

definition other_agent_cells :: "Agent list \<Rightarrow> Agent \<Rightarrow> pos set" where
  "other_agent_cells ags agent =
     set (map (\<lambda>a. (agent_x a, agent_y a)) (filter (\<lambda>a. a \<noteq> agent) ags))"

text \<open>
  \<open>current_state\<close> is looked up in the controller's live \<open>agent_states\<close> dictionary
  (the simulator's agents carry no \<open>state\<close> attribute); an empty dictionary is falsy and
  gives \<open>None\<close>.
\<close>

definition get_blocked_positions ::
  "ShelfHelper \<Rightarrow> Env \<Rightarrow> (nat \<rightharpoonup> AgentState) \<Rightarrow> Agent \<Rightarrow> pos set" where
  "get_blocked_positions h env states agent =
     (let blocked = obstacle_cells (obstacles env) \<union> other_agent_cells (agents env) agent;
          current_state = states (agent_id agent)
      in if current_state \<in> {Some deliver, Some return_shelf, Some charging} then
           (case carrying_shelf agent of
              Some sh \<Rightarrow>
                (let carried_shelf_pos =
                       (case shelf_memory h (shelf_id sh) of Some p \<Rightarrow> p | None \<Rightarrow> (-1, -1))
                 in blocked \<union> {p \<in> shelf_locations h. p \<noteq> carried_shelf_pos})
            | None \<Rightarrow> blocked \<union> shelf_locations h)
         else blocked)"

text \<open>
  The cell that \<open>get_blocked_positions\<close> exempts for a carried shelf: the position
  remembered for its id when the helper was constructed, \<open>(-1, -1)\<close> for an unknown id.
\<close>

definition carried_shelf_pos :: "ShelfHelper \<Rightarrow> Shelf \<Rightarrow> pos" where
  "carried_shelf_pos h sh =
     (case shelf_memory h (shelf_id sh) of Some p \<Rightarrow> p | None \<Rightarrow> (-1, -1))"

section \<open>Path planner, shared parts\<close>

definition is_position_valid :: "int \<Rightarrow> int \<Rightarrow> pos \<Rightarrow> bool" where
  "is_position_valid rows cols p = (0 \<le> fst p \<and> fst p < cols \<and> 0 \<le> snd p \<and> snd p < rows)"

fun forward_cell :: "pos \<Rightarrow> Direction \<Rightarrow> pos" where
  "forward_cell (px, py) UP = (px, py - 1)"
| "forward_cell (px, py) DOWN = (px, py + 1)"
| "forward_cell (px, py) LEFT_dir = (px - 1, py)"
| "forward_cell (px, py) RIGHT_dir = (px + 1, py)"

text \<open>The two turn tables \<open>{0:2, 1:3, 2:1, 3:0}\<close> and \<open>{0:3, 1:2, 2:0, 3:1}\<close>.\<close>

fun turn_left :: "Direction \<Rightarrow> Direction" where
  "turn_left UP = LEFT_dir"
| "turn_left DOWN = RIGHT_dir"
| "turn_left LEFT_dir = DOWN"
| "turn_left RIGHT_dir = UP"

fun turn_right :: "Direction \<Rightarrow> Direction" where
  "turn_right UP = RIGHT_dir"
| "turn_right DOWN = LEFT_dir"
| "turn_right LEFT_dir = UP"
| "turn_right RIGHT_dir = DOWN"

text \<open>
  The loop of \<open>_validate_action_sequence\<close>, from the pose \<open>(p, d)\<close> reached so far.
\<close>

fun validate_from :: "int \<Rightarrow> int \<Rightarrow> pos set \<Rightarrow> pos \<Rightarrow> Direction \<Rightarrow> Action list \<Rightarrow> bool" where
  "validate_from rows cols blocked p d [] = True"
| "validate_from rows cols blocked p d (a # acts) =
     (if a = FORWARD then
        (let np = forward_cell p d
         in if \<not> is_position_valid rows cols np \<or> np \<in> blocked then False
            else validate_from rows cols blocked np d acts)
      else if a = LEFT \<or> a = RIGHT then
        validate_from rows cols blocked p (if a = LEFT then turn_left d else turn_right d) acts
      else validate_from rows cols blocked p d acts)"

definition validate_action_sequence ::
  "int \<Rightarrow> int \<Rightarrow> Agent \<Rightarrow> Action list \<Rightarrow> pos set \<Rightarrow> bool" where
  "validate_action_sequence rows cols agent actions blocked =
     validate_from rows cols blocked (agent_x agent, agent_y agent) (agent_dir agent) actions"

fun turn_to_face :: "Direction \<Rightarrow> Direction \<Rightarrow> Action list" where
  "turn_to_face UP DOWN = [LEFT, LEFT]"
| "turn_to_face UP LEFT_dir = [LEFT]"
| "turn_to_face UP RIGHT_dir = [RIGHT]"
| "turn_to_face DOWN UP = [LEFT, LEFT]"
| "turn_to_face DOWN LEFT_dir = [RIGHT]"
| "turn_to_face DOWN RIGHT_dir = [LEFT]"
| "turn_to_face LEFT_dir UP = [RIGHT]"
| "turn_to_face LEFT_dir DOWN = [LEFT]"
| "turn_to_face LEFT_dir RIGHT_dir = [LEFT, LEFT]"
| "turn_to_face RIGHT_dir UP = [LEFT]"
| "turn_to_face RIGHT_dir DOWN = [RIGHT]"
| "turn_to_face RIGHT_dir LEFT_dir = [LEFT, LEFT]"
| "turn_to_face current desired = []"

definition get_neighbors :: "int \<Rightarrow> int \<Rightarrow> pos \<Rightarrow> pos list" where
  "get_neighbors rows cols p =
     filter (\<lambda>(nx, ny). 0 \<le> nx \<and> nx < cols \<and> 0 \<le> ny \<and> ny < rows)
       (map (\<lambda>(dx, dy). (fst p + dx, snd p + dy)) [(0, 1), (1, 0), (0, -1), (-1, 0)])"

text \<open>
  The loop of \<open>_convert_path_to_actions\<close>: \<open>cur_dir\<close> and \<open>cur_pos\<close> are the loop
  variables, a step that is not a unit step is skipped without moving \<open>cur_pos\<close>.
\<close>

fun convert_from :: "Direction \<Rightarrow> pos \<Rightarrow> pos list \<Rightarrow> Action list" where
  "convert_from cur_dir cur_pos [] = []"
| "convert_from cur_dir cur_pos (next_pos # path) =
     (let dx = fst next_pos - fst cur_pos; dy = snd next_pos - snd cur_pos
      in if dx = 1 \<or> dx = -1 \<or> dy = 1 \<or> dy = -1 then
           (let desired_dir = (if dx = 1 then RIGHT_dir else if dx = -1 then LEFT_dir
                               else if dy = 1 then DOWN else UP)
            in (if cur_dir \<noteq> desired_dir then turn_to_face cur_dir desired_dir else [])
               @ [FORWARD] @ convert_from desired_dir next_pos path)
         else convert_from cur_dir cur_pos path)"

definition convert_path_to_actions :: "Agent \<Rightarrow> pos list \<Rightarrow> Action list" where
  "convert_path_to_actions agent path =
     (if path = [] then []
      else convert_from (agent_dir agent) (agent_x agent, agent_y agent) path)"

section \<open>Strategy B: breadth-first search (\<open>baseline_algorithm/shelf_movement.py\<close>)\<close>

text \<open>
  The inner \<open>for neighbor in ...\<close> loop of the search: it returns the queue, the
  \<open>visited\<close> dictionary and the \<open>found\<close> flag; finding the goal breaks out of the loop.
  The start cell is stored in \<open>visited\<close> with the value \<open>None\<close>.
\<close>

fun bfs_expand ::
  "pos set \<Rightarrow> pos \<Rightarrow> pos \<Rightarrow> pos list \<Rightarrow> pos list \<times> (pos \<rightharpoonup> pos option)
     \<Rightarrow> pos list \<times> (pos \<rightharpoonup> pos option) \<times> bool" where
  "bfs_expand blocked goal current [] (queue, visited) = (queue, visited, False)"
| "bfs_expand blocked goal current (n # ns) (queue, visited) =
     (if n = goal then (queue, visited(n \<mapsto> Some current), True)
      else if visited n = None \<and> n \<notin> blocked then
        bfs_expand blocked goal current ns (queue @ [n], visited(n \<mapsto> Some current))
      else bfs_expand blocked goal current ns (queue, visited))"

text \<open>
  The \<open>while queue and not found\<close> loop; the result is the final \<open>visited\<close> dictionary
  and the flag. A run that never leaves the loop is the value \<open>None\<close>.
\<close>

partial_function (option) bfs_loop ::
  "int \<Rightarrow> int \<Rightarrow> pos set \<Rightarrow> pos \<Rightarrow> pos list \<Rightarrow> (pos \<rightharpoonup> pos option)
     \<Rightarrow> ((pos \<rightharpoonup> pos option) \<times> bool) option" where
  "bfs_loop rows cols blocked goal queue visited =
     (case queue of
        [] \<Rightarrow> Some (visited, False)
      | current # rest \<Rightarrow>
          (case bfs_expand blocked goal current (get_neighbors rows cols current) (rest, visited) of
             (queue', visited', found) \<Rightarrow>
               if found then Some (visited', True)
               else bfs_loop rows cols blocked goal queue' visited'))"

declare bfs_loop.simps [code]

text \<open>
  Path reconstruction \<open>while current != start_pos: path.append(current);
  current = visited[current]\<close>. A missing key raises; the value \<open>None\<close> stored for the
  start makes the next lookup \<open>visited[None]\<close> raise as well.
\<close>

partial_function (option) bfs_reconstruct ::
  "pos \<Rightarrow> (pos \<rightharpoonup> pos option) \<Rightarrow> pos \<Rightarrow> pos list \<Rightarrow> (py_error + pos list) option" where
  "bfs_reconstruct start_pos visited current path =
     (if current \<noteq> start_pos then
        (case visited current of
           None \<Rightarrow> Some (Inl KeyError)
         | Some None \<Rightarrow> Some (Inl KeyError)
         | Some (Some prev) \<Rightarrow> bfs_reconstruct start_pos visited prev (path @ [current]))
      else Some (Inr path))"

declare bfs_reconstruct.simps [code]

definition bfs_pathfind_movement ::
  "int \<Rightarrow> int \<Rightarrow> Agent \<Rightarrow> pos \<Rightarrow> pos set \<Rightarrow> (py_error + Action list) option" where
  "bfs_pathfind_movement rows cols agent goal_pos blocked =
     (let start_pos = (agent_x agent, agent_y agent)
      in if start_pos = goal_pos then Some (Inr [])
         else
           (case bfs_loop rows cols blocked goal_pos [start_pos] [start_pos \<mapsto> None] of
              None \<Rightarrow> None
            | Some (visited, found) \<Rightarrow>
                if \<not> found then Some (Inr [])
                else
                  (case bfs_reconstruct start_pos visited goal_pos [] of
                     None \<Rightarrow> None
                   | Some (Inl e) \<Rightarrow> Some (Inl e)
                   | Some (Inr path) \<Rightarrow> Some (Inr (convert_path_to_actions agent (rev path))))))"

text \<open>
  \<open>calculate_movement\<close> of the BFS planner, after the blocked set has been computed.
\<close>

definition bfs_plan ::
  "int \<Rightarrow> int \<Rightarrow> pos set \<Rightarrow> Agent \<Rightarrow> pos \<Rightarrow> (py_error + Action list) option" where
  "bfs_plan rows cols blocked agent goal_pos =
     (if \<not> is_position_valid rows cols goal_pos then Some (Inr [])
      else if goal_pos \<in> blocked then Some (Inr [])
      else
        (case bfs_pathfind_movement rows cols agent goal_pos blocked of
           None \<Rightarrow> None
         | Some (Inl e) \<Rightarrow> Some (Inl e)
         | Some (Inr actions) \<Rightarrow>
             if actions \<noteq> [] \<and> validate_action_sequence rows cols agent actions blocked
             then Some (Inr actions)
             else Some (Inr [])))"

section \<open>Strategy A: direct path, then A* (\<open>astar_algorithm/shelf_movement.py\<close>)\<close>

text \<open>Python's \<open>range(a, b, step)\<close> for the two steps the planner uses.\<close>

definition py_range :: "int \<Rightarrow> int \<Rightarrow> int \<Rightarrow> int list" where
  "py_range a b step = (if step = 1 then [a .. b - 1] else rev [b + 1 .. a])"

definition is_direct_path_clear :: "pos \<Rightarrow> pos \<Rightarrow> pos set \<Rightarrow> bool" where
  "is_direct_path_clear start end blocked =
     (case (start, end) of
        ((x1, y1), (x2, y2)) \<Rightarrow>
          (if x1 \<noteq> x2 \<and> (\<exists>xi \<in> set (py_range x1 x2 (if x2 > x1 then 1 else -1)). (xi, y1) \<in> blocked)
           then False
           else if y1 \<noteq> y2 \<and> (\<exists>yi \<in> set (py_range y1 y2 (if y2 > y1 then 1 else -1)). (x2, yi) \<in> blocked)
           then False
           else True))"

text \<open>One leg of \<open>_direct_movement\<close>: turn to the desired direction, then advance.\<close>

definition direct_leg :: "Direction \<Rightarrow> Direction \<Rightarrow> int \<Rightarrow> Action list" where
  "direct_leg current_dir desired_dir d =
     (if current_dir \<noteq> desired_dir then turn_to_face current_dir desired_dir else [])
     @ replicate (nat \<bar>d\<bar>) FORWARD"

definition direct_movement :: "Agent \<Rightarrow> pos \<Rightarrow> Action list" where
  "direct_movement agent goal_pos =
     (let dx = fst goal_pos - agent_x agent;
          dy = snd goal_pos - agent_y agent;
          x_dir = (if dx > 0 then RIGHT_dir else LEFT_dir);
          y_dir = (if dy > 0 then DOWN else UP);
          d0 = agent_dir agent
      in if \<bar>dx\<bar> > \<bar>dy\<bar> then
           (let a1 = (if dx \<noteq> 0 then direct_leg d0 x_dir dx else []);
                d1 = (if dx \<noteq> 0 then x_dir else d0)
            in a1 @ (if dy \<noteq> 0 then direct_leg d1 y_dir dy else []))
         else
           (let a1 = (if dy \<noteq> 0 then direct_leg d0 y_dir dy else []);
                d1 = (if dy \<noteq> 0 then y_dir else d0)
            in a1 @ (if dx \<noteq> 0 then direct_leg d1 x_dir dx else [])))"

definition heuristic :: "pos \<Rightarrow> pos \<Rightarrow> int" where
  "heuristic p goal = \<bar>fst p - fst goal\<bar> + \<bar>snd p - snd goal\<bar>"

record astar_state =
  open_set :: "pos list"
  closed_set :: "pos set"
  came_from :: "pos \<rightharpoonup> pos"
  g_score :: "pos \<rightharpoonup> int"
  f_score :: "pos \<rightharpoonup> int"

text \<open>
  Keys of \<open>min(open_set, key=lambda pos: f_score.get(pos, float('inf')))\<close>: a missing
  score is \<open>None\<close> and counts as infinity. Python's \<open>min\<close> keeps the first minimal element.
\<close>

fun key_less :: "int option \<Rightarrow> int option \<Rightarrow> bool" where
  "key_less None b = False"
| "key_less (Some u) None = True"
| "key_less (Some u) (Some v) = (u < v)"

fun min_by :: "('k \<Rightarrow> 'k \<Rightarrow> bool) \<Rightarrow> ('a \<Rightarrow> 'k) \<Rightarrow> 'a \<Rightarrow> 'a list \<Rightarrow> 'a" where
  "min_by lt key best [] = best"
| "min_by lt key best (c # cs) =
     min_by lt key (if lt (key c) (key best) then c else best) cs"

definition astar_relax :: "pos \<Rightarrow> pos \<Rightarrow> pos \<Rightarrow> int \<Rightarrow> astar_state \<Rightarrow> astar_state" where
  "astar_relax goal current n tentative s =
     s\<lparr> came_from := (came_from s)(n \<mapsto> current),
        g_score := (g_score s)(n \<mapsto> tentative),
        f_score := (f_score s)(n \<mapsto> tentative + heuristic n goal) \<rparr>"

text \<open>The inner \<open>for neighbor in ...\<close> loop of A*; \<open>g_score[current]\<close> raises if missing.\<close>

fun astar_expand :: "pos set \<Rightarrow> pos \<Rightarrow> pos \<Rightarrow> pos list \<Rightarrow> astar_state \<Rightarrow> py_error + astar_state" where
  "astar_expand blocked goal current [] s = Inr s"
| "astar_expand blocked goal current (n # ns) s =
     (if n \<in> closed_set s \<or> n \<in> blocked then astar_expand blocked goal current ns s
      else
        (case g_score s current of
           None \<Rightarrow> Inl KeyError
         | Some gc \<Rightarrow>
             (let tentative = gc + 1
              in if n \<notin> set (open_set s) then
                   astar_expand blocked goal current ns
                     (astar_relax goal current n tentative (s\<lparr>open_set := open_set s @ [n]\<rparr>))
                 else if (case g_score s n of None \<Rightarrow> False | Some gn \<Rightarrow> tentative \<ge> gn) then
                   astar_expand blocked goal current ns s
                 else astar_expand blocked goal current ns (astar_relax goal current n tentative s))))"

text \<open>
  Path reconstruction \<open>while current in came_from: current = came_from[current];
  path.append(current)\<close>: the goal itself is not appended, the start is.
\<close>

partial_function (option) astar_reconstruct ::
  "(pos \<rightharpoonup> pos) \<Rightarrow> pos \<Rightarrow> pos list \<Rightarrow> pos list option" where
  "astar_reconstruct cf current path =
     (case cf current of
        None \<Rightarrow> Some path
      | Some prev \<Rightarrow> astar_reconstruct cf prev (path @ [prev]))"

declare astar_reconstruct.simps [code]

text \<open>
  The \<open>while open_set\<close> loop. The result is \<open>None\<close> inside when the open set runs empty
  (no path), and the reconstructed, not yet reversed, path when the goal is taken from the
  open set.
\<close>

partial_function (option) astar_loop ::
  "int \<Rightarrow> int \<Rightarrow> pos set \<Rightarrow> pos \<Rightarrow> astar_state \<Rightarrow> (py_error + pos list option) option" where
  "astar_loop rows cols blocked goal s =
     (case open_set s of
        [] \<Rightarrow> Some (Inr None)
      | c # cs \<Rightarrow>
          (let current = min_by key_less (f_score s) c cs
           in if current = goal then
                (case astar_reconstruct (came_from s) current [] of
                   None \<Rightarrow> None
                 | Some path \<Rightarrow> Some (Inr (Some path)))
              else
                (case astar_expand blocked goal current (get_neighbors rows cols current)
                        (s\<lparr> open_set := remove1 current (open_set s),
                            closed_set := insert current (closed_set s) \<rparr>) of
                   Inl e \<Rightarrow> Some (Inl e)
                 | Inr s' \<Rightarrow> astar_loop rows cols blocked goal s')))"

declare astar_loop.simps [code]

definition astar_pathfind_movement ::
  "int \<Rightarrow> int \<Rightarrow> Agent \<Rightarrow> pos \<Rightarrow> pos set \<Rightarrow> (py_error + Action list) option" where
  "astar_pathfind_movement rows cols agent goal_pos blocked =
     (let start_pos = (agent_x agent, agent_y agent);
          s0 = \<lparr> open_set = [start_pos], closed_set = {}, came_from = Map.empty,
                 g_score = [start_pos \<mapsto> 0],
                 f_score = [start_pos \<mapsto> heuristic start_pos goal_pos] \<rparr>
      in case astar_loop rows cols blocked goal_pos s0 of
           None \<Rightarrow> None
         | Some (Inl e) \<Rightarrow> Some (Inl e)
         | Some (Inr None) \<Rightarrow> Some (Inr [])
         | Some (Inr (Some path)) \<Rightarrow>
             (let path' = rev path
              in if path' = [] then Some (Inr [])
                 else Some (Inr (convert_path_to_actions agent path'))))"

text \<open>
  \<open>calculate_movement\<close> of the A* planner, after the blocked set has been computed: a
  direct path that passes both checks is returned; otherwise the A* result is returned if
  it is non-empty and passes the validation.
\<close>

definition astar_search_part ::
  "int \<Rightarrow> int \<Rightarrow> pos set \<Rightarrow> Agent \<Rightarrow> pos \<Rightarrow> (py_error + Action list) option" where
  "astar_search_part rows cols blocked agent goal_pos =
     (case astar_pathfind_movement rows cols agent goal_pos blocked of
        None \<Rightarrow> None
      | Some (Inl e) \<Rightarrow> Some (Inl e)
      | Some (Inr actions) \<Rightarrow>
          if actions \<noteq> [] \<and> validate_action_sequence rows cols agent actions blocked
          then Some (Inr actions)
          else Some (Inr []))"

definition astar_plan ::
  "int \<Rightarrow> int \<Rightarrow> pos set \<Rightarrow> Agent \<Rightarrow> pos \<Rightarrow> (py_error + Action list) option" where
  "astar_plan rows cols blocked agent goal_pos =
     (let current_pos = (agent_x agent, agent_y agent)
      in if \<not> is_position_valid rows cols goal_pos then Some (Inr [])
         else if goal_pos \<in> blocked then Some (Inr [])
         else if is_direct_path_clear current_pos goal_pos blocked then
           (let actions = direct_movement agent goal_pos
            in if validate_action_sequence rows cols agent actions blocked then Some (Inr actions)
               else astar_search_part rows cols blocked agent goal_pos)
         else astar_search_part rows cols blocked agent goal_pos)"

text \<open>
  \<open>ShelfCarryingMovement\<close>: the planner object holds the grid size read at construction
  and its own \<open>ShelfHelper\<close>; \<open>calculate_movement\<close> first asks the helper for the blocked
  set of the agent, with the controller's live state dictionary.
\<close>

record ShelfCarryingMovement =
  mover_rows :: int
  mover_cols :: int
  shelf_helper :: ShelfHelper

definition ShelfCarryingMovement_init :: "Env \<Rightarrow> ShelfCarryingMovement" where
  "ShelfCarryingMovement_init env =
     \<lparr> mover_rows = grid_rows env, mover_cols = grid_cols env,
       shelf_helper = ShelfHelper_init env \<rparr>"

definition astar_calculate_movement ::
  "ShelfCarryingMovement \<Rightarrow> Env \<Rightarrow> (nat \<rightharpoonup> AgentState) \<Rightarrow> Agent \<Rightarrow> pos
     \<Rightarrow> (py_error + Action list) option" where
  "astar_calculate_movement m env states agent goal_pos =
     astar_plan (mover_rows m) (mover_cols m)
       (get_blocked_positions (shelf_helper m) env states agent) agent goal_pos"

definition bfs_calculate_movement ::
  "ShelfCarryingMovement \<Rightarrow> Env \<Rightarrow> (nat \<rightharpoonup> AgentState) \<Rightarrow> Agent \<Rightarrow> pos
     \<Rightarrow> (py_error + Action list) option" where
  "bfs_calculate_movement m env states agent goal_pos =
     bfs_plan (mover_rows m) (mover_cols m)
       (get_blocked_positions (shelf_helper m) env states agent) agent goal_pos"

section \<open>Results of controller code\<close>

text \<open>
  A piece of controller code either raises (\<open>Inl\<close>) or returns (\<open>Inr\<close>); a piece that
  calls the planner may in addition not return at all (\<open>None\<close>).
\<close>

type_synonym 'a run = "(py_error + 'a) option"

definition bindE :: "py_error + 'a \<Rightarrow> ('a \<Rightarrow> py_error + 'b) \<Rightarrow> py_error + 'b" where
  "bindE r f = (case r of Inl e \<Rightarrow> Inl e | Inr v \<Rightarrow> f v)"

definition bindR :: "'a run \<Rightarrow> ('a \<Rightarrow> 'b run) \<Rightarrow> 'b run" where
  "bindR r f = (case r of None \<Rightarrow> None | Some (Inl e) \<Rightarrow> Some (Inl e) | Some (Inr v) \<Rightarrow> f v)"

text \<open>Subscription \<open>d[k]\<close> of a dictionary.\<close>

definition lookup :: "('k \<rightharpoonup> 'v) \<Rightarrow> 'k \<Rightarrow> py_error + 'v" where
  "lookup d k = (case d k of None \<Rightarrow> Inl KeyError | Some v \<Rightarrow> Inr v)"

text \<open>Reading a \<open>defaultdict(int)\<close>.\<close>

definition get0 :: "('k \<rightharpoonup> int) \<Rightarrow> 'k \<Rightarrow> int" where
  "get0 d k = (case d k of None \<Rightarrow> 0 | Some v \<Rightarrow> v)"

definition manhattan :: "pos \<Rightarrow> pos \<Rightarrow> int" where
  "manhattan p q = \<bar>fst p - fst q\<bar> + \<bar>snd p - snd q\<bar>"

section \<open>Metrics (\<open>shared_functions/metrics_tracker.py\<close>)\<close>

text \<open>
  The counters and sets of \<open>MetricsTracker\<close>. The dictionaries \<open>task_start_times\<close> and
  \<open>charging_time\<close> hold wall-clock times; only their key sets are kept. The other
  wall-clock fields (durations, idle times) are left out, so \<open>record_step_completion\<close>,
  which writes nothing else, changes nothing here.
\<close>

record MetricsTracker =
  total_deliveries :: int
  successful_deliveries :: int
  failed_deliveries :: int
  completed_shelves :: "nat set"
  task_start_times :: "(nat \<times> nat) set"
  task_step_counts :: "int list"
  current_task_steps :: "nat \<rightharpoonup> int"
  total_steps :: int
  collision_count :: int
  recovery_steps :: "nat \<rightharpoonup> int"
  recovery_steps_count :: "int list"
  metrics_in_recovery :: "nat \<rightharpoonup> bool"
  overcapacity_attempts :: int
  overcapacity_agents :: "nat set"
  low_battery_events :: int
  critical_battery_events :: int
  battery_failures :: int
  charging_time :: "nat set"
  charging_step_counts :: "int list"
  charging_steps :: "nat \<rightharpoonup> int"
  discharged_agents :: "nat set"

definition MetricsTracker_init :: MetricsTracker where
  "MetricsTracker_init =
     \<lparr> total_deliveries = 0, successful_deliveries = 0, failed_deliveries = 0,
       completed_shelves = {}, task_start_times = {}, task_step_counts = [],
       current_task_steps = Map.empty, total_steps = 0, collision_count = 0,
       recovery_steps = Map.empty, recovery_steps_count = [], metrics_in_recovery = Map.empty,
       overcapacity_attempts = 0, overcapacity_agents = {}, low_battery_events = 0,
       critical_battery_events = 0, battery_failures = 0, charging_time = {},
       charging_step_counts = [], charging_steps = Map.empty, discharged_agents = {} \<rparr>"

definition record_task_start :: "MetricsTracker \<Rightarrow> nat \<Rightarrow> nat \<Rightarrow> MetricsTracker" where
  "record_task_start m a s =
     m\<lparr> task_start_times := insert (a, s) (task_start_times m),
        current_task_steps := (current_task_steps m)(a \<mapsto> 0) \<rparr>"

definition record_movement :: "MetricsTracker \<Rightarrow> nat \<Rightarrow> MetricsTracker" where
  "record_movement m a =
     (let m1 = m\<lparr> current_task_steps := (current_task_steps m)(a \<mapsto> get0 (current_task_steps m) a + 1) \<rparr>
      in if a \<in> charging_time m1
         then m1\<lparr> charging_steps := (charging_steps m1)(a \<mapsto> get0 (charging_steps m1) a + 1) \<rparr>
         else m1)"

definition record_total_steps :: "MetricsTracker \<Rightarrow> MetricsTracker" where
  "record_total_steps m = m\<lparr> total_steps := total_steps m + 1 \<rparr>"

definition record_task_completion :: "MetricsTracker \<Rightarrow> nat \<Rightarrow> nat \<Rightarrow> MetricsTracker" where
  "record_task_completion m a s =
     (if (a, s) \<notin> task_start_times m then m
      else m\<lparr> task_step_counts := task_step_counts m @ [get0 (current_task_steps m) a],
              successful_deliveries := successful_deliveries m + 1,
              total_deliveries := total_deliveries m + 1,
              completed_shelves := insert s (completed_shelves m),
              task_start_times := task_start_times m - {(a, s)},
              current_task_steps := (current_task_steps m)(a := None) \<rparr>)"

definition record_collision :: "MetricsTracker \<Rightarrow> nat \<Rightarrow> MetricsTracker" where
  "record_collision m a =
     m\<lparr> collision_count := collision_count m + 1,
        metrics_in_recovery := (metrics_in_recovery m)(a \<mapsto> True) \<rparr>"

definition record_recovery_step :: "MetricsTracker \<Rightarrow> nat \<Rightarrow> MetricsTracker" where
  "record_recovery_step m a =
     (if metrics_in_recovery m a = Some True
      then m\<lparr> recovery_steps := (recovery_steps m)(a \<mapsto> get0 (recovery_steps m) a + 1) \<rparr>
      else m)"

definition record_recovery_complete :: "MetricsTracker \<Rightarrow> nat \<Rightarrow> MetricsTracker" where
  "record_recovery_complete m a =
     (if metrics_in_recovery m a \<noteq> None
      then m\<lparr> recovery_steps_count := recovery_steps_count m @ [get0 (recovery_steps m) a],
              metrics_in_recovery := (metrics_in_recovery m)(a := None),
              recovery_steps := (recovery_steps m)(a := None) \<rparr>
      else m)"

definition record_overcapacity_attempt ::
  "MetricsTracker \<Rightarrow> nat \<Rightarrow> nat \<Rightarrow> int \<Rightarrow> int \<Rightarrow> MetricsTracker" where
  "record_overcapacity_attempt m a s shelf_weight agent_capacity =
     m\<lparr> overcapacity_attempts := overcapacity_attempts m + 1,
        overcapacity_agents := insert a (overcapacity_agents m),
        failed_deliveries := failed_deliveries m + 1,
        total_deliveries := total_deliveries m + 1 \<rparr>"

definition record_low_battery :: "MetricsTracker \<Rightarrow> nat \<Rightarrow> real \<Rightarrow> MetricsTracker" where
  "record_low_battery m a level = m\<lparr> low_battery_events := low_battery_events m + 1 \<rparr>"

definition record_critical_battery :: "MetricsTracker \<Rightarrow> nat \<Rightarrow> real \<Rightarrow> MetricsTracker" where
  "record_critical_battery m a level =
     m\<lparr> critical_battery_events := critical_battery_events m + 1 \<rparr>"

definition record_battery_failure :: "MetricsTracker \<Rightarrow> nat \<Rightarrow> MetricsTracker" where
  "record_battery_failure m a =
     m\<lparr> battery_failures := battery_failures m + 1,
        discharged_agents := insert a (discharged_agents m),
        failed_deliveries := failed_deliveries m + 1,
        total_deliveries := total_deliveries m + 1 \<rparr>"

definition record_charging_start :: "MetricsTracker \<Rightarrow> nat \<Rightarrow> MetricsTracker" where
  "record_charging_start m a =
     m\<lparr> charging_time := insert a (charging_time m),
        charging_steps := (charging_steps m)(a \<mapsto> 0) \<rparr>"

definition record_charging_end :: "MetricsTracker \<Rightarrow> nat \<Rightarrow> MetricsTracker" where
  "record_charging_end m a =
     (if a \<in> charging_time m
      then m\<lparr> charging_step_counts := charging_step_counts m @ [get0 (charging_steps m) a],
              charging_time := charging_time m - {a} \<rparr>
      else m)"

definition record_step_completion :: "MetricsTracker \<Rightarrow> MetricsTracker" where
  "record_step_completion m = m"

section \<open>The controller (\<open>astar_algorithm/main.py\<close>)\<close>

text \<open>
  A target is \<open>None\<close> or a dictionary with the key \<open>'position'\<close> and, for a shelf, the
  key \<open>'id'\<close>. The snapshot taken before charging holds the state, a dictionary of
  state-specific targets (always with the key \<open>'shelf_id'\<close>, and one of three location
  keys), the id of the carried shelf and the shelf's origin.
\<close>

record Target =
  target_id :: "nat option"
  target_position :: pos

record SavedTargets =
  saved_shelf_id :: "nat option"
  saved_shelf_location :: "pos option"
  saved_goal_location :: "pos option"
  saved_shelf_origin :: "pos option"

record PreCharging =
  pc_state :: AgentState
  pc_targets :: "SavedTargets option"
  pc_shelf_id :: "nat option"
  pc_shelf_origin :: "pos option"

text \<open>
  The dictionaries keyed by agent id are maps; the reservation ledger
  (\<open>reserved_shelves\<close>, \<open>shelf_reservation_time\<close>) and \<open>assigned_waiting_areas\<close>, which
  the code iterates, are association lists in insertion order. \<open>goal_locations\<close> is a
  Python set that the code iterates with \<open>min\<close>; it is the list of its elements in
  iteration order.
\<close>

record Controller =
  agent_states :: "nat \<rightharpoonup> AgentState"
  agent_targets :: "nat \<rightharpoonup> Target option"
  last_positions :: "nat \<rightharpoonup> pos"
  stuck_count :: "nat \<rightharpoonup> int"
  last_actions :: "nat \<rightharpoonup> Action list"
  reserved_shelves :: "(nat \<times> nat) list"
  shelf_reservation_time :: "(nat \<times> int) list"
  current_step :: int
  charging_stations :: "pos list"
  pre_charging_data :: "nat \<rightharpoonup> PreCharging"
  assigned_waiting_areas :: "(nat \<times> pos) list"
  waiting_areas :: "pos list"
  in_recovery :: "nat \<rightharpoonup> bool"
  goal_locations :: "pos list"
  ctrl_shelf_memory :: "nat \<rightharpoonup> pos"
  ctrl_rows :: int
  ctrl_cols :: int
  shelf_mover :: ShelfCarryingMovement
  metrics :: MetricsTracker

definition low_battery_threshold :: real where
  "low_battery_threshold = 20"

definition critical_battery_threshold :: real where
  "critical_battery_threshold = 10"

definition clamp_cell :: "int \<Rightarrow> int \<Rightarrow> pos \<Rightarrow> pos" where
  "clamp_cell rows cols p = (max 0 (min (fst p) (cols - 1)), max 0 (min (snd p) (rows - 1)))"

definition identify_charging_stations :: "Env \<Rightarrow> pos list" where
  "identify_charging_stations env =
     [(0, 0), (grid_cols env - 1, 0), (0, grid_rows env - 1),
      (grid_cols env - 1, grid_rows env - 1)]"

definition is_adjacent_to_shelf :: "pos set \<Rightarrow> pos \<Rightarrow> bool" where
  "is_adjacent_to_shelf shelf_positions p =
     (case p of (px, py) \<Rightarrow>
        list_ex (\<lambda>adj_pos. adj_pos \<in> shelf_positions)
          [(px - 1, py), (px + 1, py), (px, py - 1), (px, py + 1),
           (px - 1, py - 1), (px + 1, py - 1), (px - 1, py + 1), (px + 1, py + 1)])"

definition identify_waiting_areas :: "Env \<Rightarrow> pos list \<Rightarrow> pos list \<Rightarrow> pos list" where
  "identify_waiting_areas env goal_locs stations =
     (let rows = grid_rows env; cols = grid_cols env;
          all_positions = concat (map (\<lambda>cx. map (\<lambda>cy. (cx, cy)) [0 .. rows - 1]) [0 .. cols - 1]);
          shelf_positions = set (map (\<lambda>s. (shelf_x s, shelf_y s)) (shelfs env));
          occupied = shelf_positions \<union> set goal_locs \<union> set stations;
          available = filter (\<lambda>p. p \<notin> occupied \<and> \<not> is_adjacent_to_shelf shelf_positions p)
                        all_positions
      in if available = [] then
           (let corners = [(0, 0), (cols - 1, 0), (0, rows - 1), (cols - 1, rows - 1)];
                available' = filter (\<lambda>p. \<not> is_adjacent_to_shelf shelf_positions p) corners
            in if available' = [] then corners else available')
         else available)"

text \<open>
  \<open>WarehouseInitializer\<close> clamps every agent into the grid, in place, before the
  controller reads it.
\<close>

definition initialize_agents :: "Env \<Rightarrow> Env" where
  "initialize_agents env =
     env\<lparr> agents :=
            map (\<lambda>a. a\<lparr> agent_x := max 0 (min (agent_x a) (grid_cols env - 1)),
                        agent_y := max 0 (min (agent_y a) (grid_rows env - 1)) \<rparr>) (agents env) \<rparr>"

text \<open>
  The controller after \<open>__init__\<close> and \<open>initialize_and_verify\<close>, on the environment with
  its agents already clamped.
\<close>

definition WarehouseController_init :: "Env \<Rightarrow> Controller" where
  "WarehouseController_init env =
     (let ids = map agent_id (agents env);
          goal_locs = remdups (map (clamp_cell (grid_rows env) (grid_cols env)) (goals env));
          stations = identify_charging_stations env
      in \<lparr> agent_states = map_of (map (\<lambda>a. (agent_id a, seek_shelf)) (agents env)),
           agent_targets = map_of (map (\<lambda>a. (agent_id a, None)) (agents env)),
           last_positions = map_of (rev (map (\<lambda>a. (agent_id a, (agent_x a, agent_y a))) (agents env))),
           stuck_count = map_of (map (\<lambda>a. (agent_id a, 0)) (agents env)),
           last_actions = map_of (map (\<lambda>a. (agent_id a, [])) (agents env)),
           reserved_shelves = [],
           shelf_reservation_time = [],
           current_step = 0,
           charging_stations = stations,
           pre_charging_data = Map.empty,
           assigned_waiting_areas = [],
           waiting_areas = identify_waiting_areas env goal_locs stations,
           in_recovery = Map.empty,
           goal_locations = goal_locs,
           ctrl_shelf_memory =
             map_of (rev (map (\<lambda>s. (shelf_id s,
                                    clamp_cell (grid_rows env) (grid_cols env) (shelf_x s, shelf_y s)))
                              (shelfs env))),
           ctrl_rows = grid_rows env,
           ctrl_cols = grid_cols env,
           shelf_mover = ShelfCarryingMovement_init env,
           metrics = MetricsTracker_init \<rparr>)"

definition get_aligned_position :: "Controller \<Rightarrow> pos \<Rightarrow> pos" where
  "get_aligned_position c p = clamp_cell (ctrl_rows c) (ctrl_cols c) p"

definition battery_pct_of :: "Env \<Rightarrow> Agent \<Rightarrow> real" where
  "battery_pct_of env a = battery_level a / battery_capacity env * 100"

definition needs_charging :: "Env \<Rightarrow> Agent \<Rightarrow> bool" where
  "needs_charging env agent = (battery_pct_of env agent < low_battery_threshold)"

text \<open>
  \<open>a.carrying_shelf == shelf\<close> compares objects; the environment holds one value per
  object, so it is equality of values here.
\<close>

definition is_carried :: "Env \<Rightarrow> Shelf \<Rightarrow> bool" where
  "is_carried env shelf = list_ex (\<lambda>a. carrying_shelf a = Some shelf) (agents env)"

text \<open>
  The test both shelf loops make on the ledger: the shelf has an entry, the entry belongs
  to another agent, and it is younger than 20 steps (a missing time counts as step 0).
\<close>

definition reserved_by_other :: "Controller \<Rightarrow> Agent \<Rightarrow> Shelf \<Rightarrow> bool" where
  "reserved_by_other c agent shelf =
     (case map_of (reserved_shelves c) (shelf_id shelf) of
        None \<Rightarrow> False
      | Some reserving_agent \<Rightarrow>
          (let reservation_time =
                 (case map_of (shelf_reservation_time c) (shelf_id shelf) of
                    None \<Rightarrow> 0 | Some t \<Rightarrow> t)
           in reserving_agent \<noteq> agent_id agent \<and> current_step c - reservation_time < 20))"

definition can_carry_any_shelf :: "Controller \<Rightarrow> Env \<Rightarrow> Agent \<Rightarrow> bool" where
  "can_carry_any_shelf c env agent =
     list_ex (\<lambda>shelf. \<not> is_carried env shelf \<and> \<not> reserved_by_other c agent shelf
                        \<and> weight shelf \<le> max_carry_weight agent)
       (request_queue env)"

definition get_waiting_area :: "Controller \<Rightarrow> Agent \<Rightarrow> py_error + pos \<times> Controller" where
  "get_waiting_area c agent =
     (case map_of (assigned_waiting_areas c) (agent_id agent) of
        Some area \<Rightarrow> Inr (area, c)
      | None \<Rightarrow>
          (let occupied_areas = set (map snd (assigned_waiting_areas c));
               available_areas = filter (\<lambda>area. area \<notin> occupied_areas) (waiting_areas c)
           in case available_areas of
                a # rest \<Rightarrow>
                  (let current_pos = (agent_x agent, agent_y agent);
                       closest_area = min_by (<) (\<lambda>p. manhattan p current_pos) a rest
                   in Inr (closest_area,
                           c\<lparr> assigned_waiting_areas :=
                                AList.update (agent_id agent) closest_area (assigned_waiting_areas c) \<rparr>))
              | [] \<Rightarrow>
                  if waiting_areas c = [] then Inl ZeroDivisionError
                  else
                    (let area = waiting_areas c ! (agent_id agent mod length (waiting_areas c))
                     in Inr (area,
                             c\<lparr> assigned_waiting_areas :=
                                  AList.update (agent_id agent) area (assigned_waiting_areas c) \<rparr>))))"

text \<open>
  \<open>if movement_sequence: last_actions[id] = movement_sequence[1:]\<close> and the action the
  caller emits: the head of the sequence, or \<open>fallback\<close> for an empty one.
\<close>

definition enqueue_movement :: "Controller \<Rightarrow> nat \<Rightarrow> Action list \<Rightarrow> Action \<Rightarrow> Action \<times> Controller" where
  "enqueue_movement c i movement_sequence fallback =
     (case movement_sequence of
        [] \<Rightarrow> (fallback, c)
      | a # rest \<Rightarrow> (a, c\<lparr> last_actions := (last_actions c)(i \<mapsto> rest) \<rparr>))"

definition plan :: "Controller \<Rightarrow> Env \<Rightarrow> Agent \<Rightarrow> pos \<Rightarrow> Action list run" where
  "plan c env agent goal_pos =
     astar_calculate_movement (shelf_mover c) env (agent_states c) agent goal_pos"

subsection \<open>Charging stations and the pre-charging snapshot\<close>

text \<open>
  A station qualifies when no agent stands on it, or when one of the agents standing on it
  has more than 90 percent of battery. (The loop also skips a station equal to the agent's
  own cell.) The division by the capacity cannot raise here: \<open>get_actions\<close> has divided
  by the same capacity before it reaches any caller.
\<close>

definition station_eligible :: "Env \<Rightarrow> pos \<Rightarrow> bool" where
  "station_eligible env station =
     (let charging_agents = filter (\<lambda>a. (agent_x a, agent_y a) = station) (agents env)
      in charging_agents = [] \<or> list_ex (\<lambda>a. battery_pct_of env a > 90) charging_agents)"

definition get_closest_charging_station :: "Controller \<Rightarrow> Env \<Rightarrow> Agent \<Rightarrow> pos option" where
  "get_closest_charging_station c env agent =
     (let current_pos = (agent_x agent, agent_y agent)
      in if current_pos \<in> set (charging_stations c) then None
         else
           (let stations_sorted = sort_key (\<lambda>station. manhattan station current_pos)
                                    (charging_stations c)
            in case find (\<lambda>station. station \<noteq> current_pos \<and> station_eligible env station)
                      stations_sorted of
                 Some station \<Rightarrow> Some station
               | None \<Rightarrow> (case stations_sorted of [] \<Rightarrow> None | closest # _ \<Rightarrow> Some closest)))"

definition store_pre_charging_state :: "Controller \<Rightarrow> Agent \<Rightarrow> py_error + Controller" where
  "store_pre_charging_state c agent =
     (let i = agent_id agent;
          carried_id = map_option shelf_id (carrying_shelf agent)
      in bindE (lookup (agent_states c) i) (\<lambda>st.
           (let storage = \<lparr> pc_state = st, pc_targets = None, pc_shelf_id = carried_id,
                            pc_shelf_origin = None \<rparr>;
                save = (\<lambda>d. c\<lparr> pre_charging_data := (pre_charging_data c)(i \<mapsto> d) \<rparr>)
            in case agent_targets c i of
                 None \<Rightarrow> Inr (save storage)
               | Some None \<Rightarrow> Inr (save storage)
               | Some (Some tgt) \<Rightarrow>
                   if st = seek_shelf then
                     Inr (save (storage\<lparr> pc_targets :=
                            Some \<lparr> saved_shelf_id = target_id tgt,
                                   saved_shelf_location = Some (target_position tgt),
                                   saved_goal_location = None, saved_shelf_origin = None \<rparr> \<rparr>))
                   else if st = deliver then
                     (case carrying_shelf agent of
                        None \<Rightarrow> Inr (save storage)
                      | Some sh \<Rightarrow>
                          (case goal_locations c of
                             [] \<Rightarrow> Inl ValueError
                           | g # gs \<Rightarrow>
                               Inr (save (storage\<lparr> pc_targets :=
                                      Some \<lparr> saved_shelf_id = Some (shelf_id sh),
                                             saved_shelf_location = None,
                                             saved_goal_location =
                                               Some (min_by (<) (\<lambda>p. manhattan p (agent_x agent, agent_y agent)) g gs),
                                             saved_shelf_origin = None \<rparr> \<rparr>))))
                   else if st = return_shelf then
                     (case carrying_shelf agent of
                        None \<Rightarrow> Inr (save storage)
                      | Some sh \<Rightarrow>
                          (case ctrl_shelf_memory c (shelf_id sh) of
                             None \<Rightarrow> Inr (save storage)
                           | Some origin \<Rightarrow>
                               Inr (save (storage\<lparr> pc_targets :=
                                      Some \<lparr> saved_shelf_id = Some (shelf_id sh),
                                             saved_shelf_location = None,
                                             saved_goal_location = None,
                                             saved_shelf_origin = Some origin \<rparr>,
                                      pc_shelf_origin := Some origin \<rparr>))))
                   else Inr (save storage))))"

text \<open>
  The common tail of both battery branches: \<open>closest_station =
  self._get_closest_charging_station(agent); if closest_station: ...\<close>.
\<close>

definition go_charging :: "Controller \<Rightarrow> Env \<Rightarrow> Agent \<Rightarrow> Controller" where
  "go_charging c env agent =
     (case get_closest_charging_station c env agent of
        None \<Rightarrow> c
      | Some closest_station \<Rightarrow>
          c\<lparr> metrics := record_charging_start (metrics c) (agent_id agent),
             agent_states := (agent_states c)(agent_id agent \<mapsto> charging),
             agent_targets := (agent_targets c)(agent_id agent \<mapsto>
                                 Some \<lparr> target_id = None, target_position = closest_station \<rparr>),
             last_actions := (last_actions c)(agent_id agent \<mapsto> []) \<rparr>)"

definition has_target :: "Controller \<Rightarrow> nat \<Rightarrow> bool" where
  "has_target c i = (case agent_targets c i of Some (Some tgt) \<Rightarrow> True | _ \<Rightarrow> False)"

text \<open>``Emergency charging if critical'' (the first battery branch).\<close>

definition critical_battery_check :: "Env \<Rightarrow> Agent \<Rightarrow> real \<Rightarrow> Controller \<Rightarrow> py_error + Controller" where
  "critical_battery_check env agent battery_pct c =
     (if battery_pct < critical_battery_threshold \<and> \<not> is_charging agent then
        (let c1 = c\<lparr> metrics := record_critical_battery (metrics c) (agent_id agent) battery_pct \<rparr>
         in bindE (lookup (agent_states c1) (agent_id agent)) (\<lambda>st.
              bindE (if st \<noteq> charging \<and> has_target c1 (agent_id agent)
                     then store_pre_charging_state c1 agent else Inr c1)
                (\<lambda>c2. Inr (go_charging c2 env agent))))
      else Inr c)"

text \<open>``Normal charging when low'' (the second battery branch).\<close>

definition low_battery_check :: "Env \<Rightarrow> Agent \<Rightarrow> real \<Rightarrow> Controller \<Rightarrow> py_error + Controller" where
  "low_battery_check env agent battery_pct c =
     (if needs_charging env agent \<and> \<not> is_charging agent then
        bindE (lookup (agent_states c) (agent_id agent)) (\<lambda>st.
          if st \<noteq> charging then
            (let c1 = c\<lparr> metrics := record_low_battery (metrics c) (agent_id agent) battery_pct \<rparr>
             in bindE (store_pre_charging_state c1 agent) (\<lambda>c2. Inr (go_charging c2 env agent)))
          else Inr c)
      else Inr c)"

definition battery_check :: "Env \<Rightarrow> Agent \<Rightarrow> real \<Rightarrow> Controller \<Rightarrow> py_error + Controller" where
  "battery_check env agent battery_pct c =
     bindE (critical_battery_check env agent battery_pct c) (low_battery_check env agent battery_pct)"

subsection \<open>Stuck and recovery monitor\<close>

text \<open>
  \<open>self.last_actions.get(id)\<close> is falsy for a missing entry and for an empty queue;
  \<open>pending_forward\<close> is the test ``the queue is non-empty and its first action is
  FORWARD''.
\<close>

definition pending_forward :: "Controller \<Rightarrow> nat \<Rightarrow> bool" where
  "pending_forward c i =
     (case last_actions c i of Some (a # rest) \<Rightarrow> a = FORWARD | _ \<Rightarrow> False)"

definition count_stuck :: "Agent \<Rightarrow> Controller \<Rightarrow> py_error + Controller" where
  "count_stuck agent c =
     (let i = agent_id agent; current_pos = (agent_x agent, agent_y agent)
      in if last_positions c i = Some current_pos \<and> pending_forward c i then
           bindE (lookup (stuck_count c) i) (\<lambda>n. Inr (c\<lparr> stuck_count := (stuck_count c)(i \<mapsto> n + 1) \<rparr>))
         else Inr (c\<lparr> stuck_count := (stuck_count c)(i \<mapsto> 0) \<rparr>))"

definition enter_recovery :: "Agent \<Rightarrow> Controller \<Rightarrow> py_error + Controller" where
  "enter_recovery agent c =
     (let i = agent_id agent
      in if get0 (stuck_count c) i > 1 \<and> \<not> is_charging agent then
           bindE (lookup (agent_states c) i) (\<lambda>st.
             if \<not> st = no_shelf_to_carry \<and> \<not> (in_recovery c i = Some True) then
               Inr (c\<lparr> last_actions := (last_actions c)(i \<mapsto> []),
                       metrics := record_collision (metrics c) i,
                       in_recovery := (in_recovery c)(i \<mapsto> True) \<rparr>)
             else Inr c)
         else Inr c)"

definition stuck_monitor :: "Agent \<Rightarrow> Controller \<Rightarrow> py_error + Controller" where
  "stuck_monitor agent c = bindE (count_stuck agent c) (enter_recovery agent)"

definition recovery_bookkeeping :: "Agent \<Rightarrow> Controller \<Rightarrow> Controller" where
  "recovery_bookkeeping agent c =
     (let i = agent_id agent; current_pos = (agent_x agent, agent_y agent);
          c1 = (if in_recovery c i = Some True
                then c\<lparr> metrics := record_recovery_step (metrics c) i \<rparr> else c);
          c2 = (if last_positions c1 i \<noteq> Some current_pos \<and> pending_forward c1 i
                   \<and> in_recovery c1 i = Some True
                then c1\<lparr> stuck_count := (stuck_count c1)(i \<mapsto> 0),
                         in_recovery := (in_recovery c1)(i \<mapsto> False),
                         metrics := record_recovery_complete (metrics c1) i \<rparr>
                else c1)
      in c2\<lparr> last_positions := (last_positions c2)(i \<mapsto> current_pos) \<rparr>)"

subsection \<open>The baseline controller's monitor (\<open>baseline_algorithm/main.py\<close>)\<close>



subsection \<open>Agents without a task\<close>

text \<open>
  The first part of the per-agent body. The result carries \<open>Some action\<close> when the body
  ends here with \<open>continue\<close>, and \<open>None\<close> when it goes on.
\<close>

definition idle_handling :: "Env \<Rightarrow> Agent \<Rightarrow> Controller \<Rightarrow> (Action option \<times> Controller) run" where
  "idle_handling env agent c0 =
     (let i = agent_id agent
      in bindR (Some (lookup (agent_states c0) i)) (\<lambda>st0.
           (let c1 = (if st0 \<notin> {deliver, return_shelf, charging} \<and> \<not> can_carry_any_shelf c0 env agent
                      then c0\<lparr> agent_states := (agent_states c0)(i \<mapsto> no_shelf_to_carry),
                               agent_targets := (agent_targets c0)(i \<mapsto> None),
                               last_actions := (last_actions c0)(i \<mapsto> []) \<rparr>
                      else c0)
            in bindR (Some (lookup (agent_states c1) i)) (\<lambda>st1.
                 if st1 = no_shelf_to_carry then
                   (if can_carry_any_shelf c1 env agent then
                      Some (Inr (None, c1\<lparr> agent_states := (agent_states c1)(i \<mapsto> seek_shelf) \<rparr>))
                    else
                      bindR (Some (get_waiting_area c1 agent)) (\<lambda>(waiting_area, c2).
                        if (agent_x agent, agent_y agent) = waiting_area then Some (Inr (Some NOOP, c2))
                        else
                          (let c3 = (if \<not> has_target c2 i
                                     then c2\<lparr> agent_targets := (agent_targets c2)(i \<mapsto>
                                                Some \<lparr> target_id = None, target_position = waiting_area \<rparr>) \<rparr>
                                     else c2)
                           in bindR (plan c3 env agent waiting_area) (\<lambda>movement_sequence.
                                (case enqueue_movement c3 i movement_sequence NOOP of
                                   (action, c4) \<Rightarrow> Some (Inr (Some action, c4)))))))
                 else Some (Inr (None, c1))))))"

subsection \<open>Restoring the snapshot after charging\<close>

definition retarget_and_plan ::
  "Controller \<Rightarrow> Env \<Rightarrow> Agent \<Rightarrow> Target \<Rightarrow> Controller run" where
  "retarget_and_plan c env agent tgt =
     (let i = agent_id agent;
          c1 = c\<lparr> agent_targets := (agent_targets c)(i \<mapsto> Some tgt) \<rparr>
      in bindR (plan c1 env agent (target_position tgt)) (\<lambda>movement_sequence.
           (case movement_sequence of
              [] \<Rightarrow> Some (Inr c1)
            | a # rest \<Rightarrow> Some (Inr (c1\<lparr> last_actions := (last_actions c1)(i \<mapsto> rest) \<rparr>)))))"

definition find_shelf :: "Shelf list \<Rightarrow> nat option \<Rightarrow> Shelf option" where
  "find_shelf ss sid = (case sid of None \<Rightarrow> None | Some k \<Rightarrow> find (\<lambda>s. shelf_id s = k) ss)"

definition restore_pre_charging_state :: "Controller \<Rightarrow> Env \<Rightarrow> Agent \<Rightarrow> Controller run" where
  "restore_pre_charging_state c env agent =
     (let i = agent_id agent
      in case pre_charging_data c i of
           None \<Rightarrow> Some (Inr (c\<lparr> agent_states := (agent_states c)(i \<mapsto> seek_shelf) \<rparr>))
         | Some data \<Rightarrow>
             (let c1 = c\<lparr> agent_states := (agent_states c)(i \<mapsto> pc_state data),
                          last_actions := (last_actions c)(i \<mapsto> []) \<rparr>;
                  carried_by_agent = (\<lambda>shelf. list_ex (\<lambda>a. agent_id a = i \<and> carrying_shelf a = Some shelf)
                                                 (agents env))
              in bindR
                   (case pc_targets data of
                      None \<Rightarrow> Some (Inr c1)
                    | Some tg \<Rightarrow>
                        if pc_state data = seek_shelf then
                          (case find_shelf (request_queue env) (saved_shelf_id tg) of
                             None \<Rightarrow> Some (Inr c1)
                           | Some shelf \<Rightarrow>
                               if \<not> is_carried env shelf then
                                 (case saved_shelf_location tg of
                                    None \<Rightarrow> Some (Inl KeyError)
                                  | Some target_pos \<Rightarrow>
                                      retarget_and_plan c1 env agent
                                        \<lparr> target_id = saved_shelf_id tg, target_position = target_pos \<rparr>)
                               else Some (Inr c1))
                        else if pc_state data = deliver then
                          (case find_shelf (shelfs env) (saved_shelf_id tg) of
                             None \<Rightarrow> Some (Inr c1)
                           | Some shelf \<Rightarrow>
                               if carried_by_agent shelf then
                                 (case saved_goal_location tg of
                                    None \<Rightarrow> Some (Inl KeyError)
                                  | Some target_pos \<Rightarrow>
                                      retarget_and_plan c1 env agent
                                        \<lparr> target_id = None, target_position = target_pos \<rparr>)
                               else Some (Inr c1))
                        else if pc_state data = return_shelf then
                          (case find_shelf (shelfs env) (saved_shelf_id tg) of
                             None \<Rightarrow> Some (Inr c1)
                           | Some shelf \<Rightarrow>
                               if carried_by_agent shelf then
                                 (case saved_shelf_origin tg of
                                    None \<Rightarrow> Some (Inl KeyError)
                                  | Some target_pos \<Rightarrow>
                                      retarget_and_plan c1 env agent
                                        \<lparr> target_id = None, target_position = target_pos \<rparr>)
                               else Some (Inr c1))
                        else Some (Inr c1))
                   (\<lambda>c2. Some (Inr (c2\<lparr> pre_charging_data := (pre_charging_data c2)(i := None) \<rparr>)))))"

subsection \<open>The state machine\<close>

text \<open>
  State \<open>charging\<close>. The result carries \<open>Some action\<close> when the body ends with
  \<open>continue\<close>; after a restore it carries \<open>None\<close> and the body falls through to the
  other states.
\<close>

definition station_available :: "Env \<Rightarrow> Agent \<Rightarrow> pos \<Rightarrow> bool" where
  "station_available env agent station_pos =
     (\<not> list_ex (\<lambda>other. other \<noteq> agent \<and> (agent_x other, agent_y other) = station_pos
                           \<and> is_charging other \<and> battery_pct_of env other < 90)
          (agents env))"

definition charging_branch :: "Env \<Rightarrow> Agent \<Rightarrow> Controller \<Rightarrow> (Action option \<times> Controller) run" where
  "charging_branch env agent c =
     (let i = agent_id agent
      in if is_charging agent then
           (if battery_level agent \<ge> battery_capacity env then
              bindR (restore_pre_charging_state c env agent) (\<lambda>c1.
                Some (Inr (None, c1\<lparr> metrics := record_charging_end (metrics c1) i \<rparr>)))
            else Some (Inr (Some NOOP, c)))
         else
           (case agent_targets c i of
              None \<Rightarrow> Some (Inl KeyError)
            | Some None \<Rightarrow> Some (Inl TypeError)
            | Some (Some tgt) \<Rightarrow>
                (let station_pos = target_position tgt
                 in if (agent_x agent, agent_y agent) = station_pos then
                      (if station_available env agent station_pos then Some (Inr (Some NOOP, c))
                       else
                         (let c1 = (if length (case last_actions c i of None \<Rightarrow> [] | Some q \<Rightarrow> q) < 2
                                    then c\<lparr> last_actions := (last_actions c)(i \<mapsto> [LEFT, RIGHT]) \<rparr>
                                    else c)
                          in case last_actions c1 i of
                               None \<Rightarrow> Some (Inl KeyError)
                             | Some [] \<Rightarrow> Some (Inl IndexError)
                             | Some (a # rest) \<Rightarrow>
                                 Some (Inr (Some a, c1\<lparr> last_actions := (last_actions c1)(i \<mapsto> rest) \<rparr>))))
                    else
                      bindR (plan c env agent station_pos) (\<lambda>movement_sequence.
                        (case enqueue_movement c i movement_sequence NOOP of
                           (action, c1) \<Rightarrow> Some (Inr (Some action, c1)))))))"

text \<open>
  Shelf selection: the loop over the request queue with its running minimum; the first
  shelf at the least distance wins.
\<close>

fun select_shelf :: "Controller \<Rightarrow> Env \<Rightarrow> Agent \<Rightarrow> Shelf list \<Rightarrow> int option \<Rightarrow> Shelf option \<Rightarrow> Shelf option" where
  "select_shelf c env agent [] min_dist closest_shelf = closest_shelf"
| "select_shelf c env agent (shelf # ss) min_dist closest_shelf =
     (if is_carried env shelf then select_shelf c env agent ss min_dist closest_shelf
      else if reserved_by_other c agent shelf then select_shelf c env agent ss min_dist closest_shelf
      else if weight shelf > max_carry_weight agent then select_shelf c env agent ss min_dist closest_shelf
      else
        (let dist = manhattan (get_aligned_position c (shelf_x shelf, shelf_y shelf))
                      (agent_x agent, agent_y agent)
         in if (case min_dist of None \<Rightarrow> True | Some d \<Rightarrow> dist < d)
            then select_shelf c env agent ss (Some dist) (Some shelf)
            else select_shelf c env agent ss min_dist closest_shelf))"

definition release_reservation :: "Controller \<Rightarrow> nat \<Rightarrow> py_error + Controller" where
  "release_reservation c sid =
     (if map_of (reserved_shelves c) sid \<noteq> None then
        (if map_of (shelf_reservation_time c) sid = None then Inl KeyError
         else Inr (c\<lparr> reserved_shelves := AList.delete sid (reserved_shelves c),
                      shelf_reservation_time := AList.delete sid (shelf_reservation_time c) \<rparr>))
      else Inr c)"

text \<open>
  The replanning block of state \<open>seek_shelf\<close> (selection, reservation, target, planning);
  it binds the local variable \<open>closest_shelf\<close>.
\<close>

definition seek_replan ::
  "Env \<Rightarrow> Agent \<Rightarrow> Controller \<Rightarrow> (Action \<times> Controller \<times> Shelf option) run" where
  "seek_replan env agent c =
     (let i = agent_id agent
      in case select_shelf c env agent (request_queue env) None None of
           None \<Rightarrow> Some (Inr (NOOP, c, None))
         | Some closest_shelf \<Rightarrow>
             (let target_pos = get_aligned_position c (shelf_x closest_shelf, shelf_y closest_shelf);
                  c1 = c\<lparr> reserved_shelves :=
                            AList.update (shelf_id closest_shelf) i (reserved_shelves c),
                          shelf_reservation_time :=
                            AList.update (shelf_id closest_shelf) (current_step c) (shelf_reservation_time c),
                          agent_targets := (agent_targets c)(i \<mapsto>
                            Some \<lparr> target_id = Some (shelf_id closest_shelf),
                                   target_position = target_pos \<rparr>) \<rparr>;
                  c2 = (if \<not> (agent_x agent, agent_y agent) = (shelf_x closest_shelf, shelf_y closest_shelf)
                        then c1\<lparr> metrics := record_task_start (metrics c1) i (shelf_id closest_shelf) \<rparr>
                        else c1)
              in bindR (plan c2 env agent target_pos) (\<lambda>movement_sequence.
                   (case enqueue_movement c2 i movement_sequence NOOP of
                      (action, c3) \<Rightarrow> Some (Inr (action, c3, Some closest_shelf))))))"

text \<open>
  ``Check if reached shelf position'': the pickup, or the over-weight rejection, for the
  shelf bound to \<open>closest_shelf\<close>.
\<close>

definition seek_pickup :: "Agent \<Rightarrow> Action \<Rightarrow> Controller \<Rightarrow> Shelf option \<Rightarrow> py_error + Action \<times> Controller" where
  "seek_pickup agent action c closest =
     (let i = agent_id agent
      in case closest of
           None \<Rightarrow> Inr (action, c)
         | Some closest_shelf \<Rightarrow>
             if (agent_x agent, agent_y agent) = (shelf_x closest_shelf, shelf_y closest_shelf) then
               (if weight closest_shelf \<le> max_carry_weight agent then
                  bindE (release_reservation
                           (c\<lparr> agent_states := (agent_states c)(i \<mapsto> deliver),
                               last_actions := (last_actions c)(i \<mapsto> []) \<rparr>)
                           (shelf_id closest_shelf))
                    (\<lambda>c1. Inr (TOGGLE_LOAD, c1))
                else
                  bindE (release_reservation
                           (c\<lparr> metrics := record_overcapacity_attempt (metrics c) i
                                             (shelf_id closest_shelf) (weight closest_shelf)
                                             (max_carry_weight agent) \<rparr>)
                           (shelf_id closest_shelf))
                    (\<lambda>c1. Inr (action, c1)))
             else Inr (action, c))"

text \<open>
  State \<open>seek_shelf\<close>. \<open>closest_var\<close> is the local variable \<open>closest_shelf\<close> of
  \<open>get_actions\<close> as the earlier agents of the same call left it: \<open>None\<close> while it is
  unbound, \<open>Some None\<close> for the value \<open>None\<close>.
\<close>

definition seek_shelf_branch ::
  "Env \<Rightarrow> Agent \<Rightarrow> Controller \<Rightarrow> Shelf option option
     \<Rightarrow> (Action \<times> Controller \<times> Shelf option option) run" where
  "seek_shelf_branch env agent c0 closest_var =
     (let i = agent_id agent;
          c = c0\<lparr> assigned_waiting_areas := AList.delete i (assigned_waiting_areas c0) \<rparr>;
          queue_empty = (case last_actions c i of None \<Rightarrow> True | Some q \<Rightarrow> q = [])
      in bindR
           (if queue_empty then Some (Inr True)
            else (case agent_targets c i of
                    None \<Rightarrow> Some (Inl KeyError)
                  | Some None \<Rightarrow> Some (Inl TypeError)
                  | Some (Some tgt) \<Rightarrow> Some (Inr ((agent_x agent, agent_y agent) \<noteq> target_position tgt))))
           (\<lambda>replan.
              bindR (if replan then
                       bindR (seek_replan env agent c) (\<lambda>(action, c1, closest).
                         Some (Inr (action, c1, Some closest)))
                     else Some (Inr (NOOP, c, closest_var)))
                (\<lambda>(action, c1, closest_var').
                   (case closest_var' of
                      None \<Rightarrow> Some (Inl UnboundLocalError)
                    | Some closest \<Rightarrow>
                        bindR (Some (seek_pickup agent action c1 closest)) (\<lambda>(action', c2).
                          Some (Inr (action', c2, closest_var')))))))"

definition deliver_branch :: "Env \<Rightarrow> Agent \<Rightarrow> Controller \<Rightarrow> (Action \<times> Controller) run" where
  "deliver_branch env agent c =
     (let i = agent_id agent
      in case goal_locations c of
           [] \<Rightarrow> Some (Inl ValueError)
         | g # gs \<Rightarrow>
             (let closest_goal = min_by (<) (\<lambda>p. manhattan p (agent_x agent, agent_y agent)) g gs
              in bindR (case agent_targets c i of
                          None \<Rightarrow> Some (Inr c)
                        | Some None \<Rightarrow> Some (Inl TypeError)
                        | Some (Some tgt) \<Rightarrow>
                            Some (Inr (c\<lparr> agent_targets := (agent_targets c)(i \<mapsto>
                                            Some (tgt\<lparr> target_position := closest_goal \<rparr>)) \<rparr>)))
                   (\<lambda>c1. bindR (plan c1 env agent closest_goal) (\<lambda>movement_sequence.
                      (case enqueue_movement c1 i movement_sequence NOOP of
                         (action, c2) \<Rightarrow>
                           if (agent_x agent, agent_y agent) = closest_goal then
                             Some (Inr (TOGGLE_LOAD,
                                        c2\<lparr> agent_states := (agent_states c2)(i \<mapsto> return_shelf),
                                            last_actions := (last_actions c2)(i \<mapsto> []) \<rparr>))
                           else Some (Inr (action, c2)))))))"

definition return_branch :: "Env \<Rightarrow> Agent \<Rightarrow> Controller \<Rightarrow> (Action \<times> Controller) run" where
  "return_branch env agent c =
     (let i = agent_id agent;
          give_up = c\<lparr> agent_states := (agent_states c)(i \<mapsto> seek_shelf),
                       agent_targets := (agent_targets c)(i \<mapsto> None),
                       last_actions := (last_actions c)(i \<mapsto> []) \<rparr>
      in case carrying_shelf agent of
           None \<Rightarrow> Some (Inr (NOOP, give_up))
         | Some sh \<Rightarrow>
             (case ctrl_shelf_memory c (shelf_id sh) of
                None \<Rightarrow> Some (Inr (NOOP, give_up))
              | Some original_pos \<Rightarrow>
                  bindR (case agent_targets c i of
                           None \<Rightarrow> Some (Inr c)
                         | Some None \<Rightarrow> Some (Inl TypeError)
                         | Some (Some tgt) \<Rightarrow>
                             Some (Inr (c\<lparr> agent_targets := (agent_targets c)(i \<mapsto>
                                             Some (tgt\<lparr> target_position := original_pos \<rparr>)) \<rparr>)))
                    (\<lambda>c1. bindR (plan c1 env agent original_pos) (\<lambda>movement_sequence.
                       (case enqueue_movement c1 i movement_sequence NOOP of
                          (action, c2) \<Rightarrow>
                            if (agent_x agent, agent_y agent) = original_pos then
                              Some (Inr (TOGGLE_LOAD,
                                         c2\<lparr> agent_states := (agent_states c2)(i \<mapsto> seek_shelf),
                                             agent_targets := (agent_targets c2)(i \<mapsto> None),
                                             last_actions := (last_actions c2)(i \<mapsto> []),
                                             metrics := record_task_completion (metrics c2) i (shelf_id sh) \<rparr>))
                            else Some (Inr (action, c2)))))))"

text \<open>
  The chain \<open>if seek_shelf ... elif deliver and carrying ... elif return_shelf ...\<close> that
  ends the per-agent body; without a matching state the action stays \<open>NOOP\<close>.
\<close>

definition task_branches ::
  "Env \<Rightarrow> Agent \<Rightarrow> Controller \<Rightarrow> Shelf option option
     \<Rightarrow> (Action \<times> Controller \<times> Shelf option option) run" where
  "task_branches env agent c closest_var =
     bindR (Some (lookup (agent_states c) (agent_id agent))) (\<lambda>st.
       if st = seek_shelf then seek_shelf_branch env agent c closest_var
       else if st = deliver \<and> carrying_shelf agent \<noteq> None then
         bindR (deliver_branch env agent c) (\<lambda>(action, c1). Some (Inr (action, c1, closest_var)))
       else if st = return_shelf then
         bindR (return_branch env agent c) (\<lambda>(action, c1). Some (Inr (action, c1, closest_var)))
       else Some (Inr (NOOP, c, closest_var)))"

subsection \<open>One agent, one tick\<close>

text \<open>
  The body of \<open>for agent in self.env.agents\<close>: the action appended for the agent, the
  controller afterwards, and the local variable \<open>closest_shelf\<close>.
\<close>

definition finish_task ::
  "Env \<Rightarrow> Agent \<Rightarrow> Controller \<Rightarrow> Shelf option option
     \<Rightarrow> (Action \<times> Controller \<times> Shelf option option) run" where
  "finish_task env agent c closest_var =
     bindR (task_branches env agent c closest_var) (\<lambda>(action, c1, closest_var').
       Some (Inr (action, c1\<lparr> metrics := record_step_completion (metrics c1) \<rparr>, closest_var')))"

text \<open>
  The end of the body: a queued action is taken from the queue; with an empty queue the
  state machine decides.
\<close>

definition choose_action ::
  "Env \<Rightarrow> Agent \<Rightarrow> Controller \<Rightarrow> Shelf option option
     \<Rightarrow> (Action \<times> Controller \<times> Shelf option option) run" where
  "choose_action env agent c closest_var =
     (let i = agent_id agent
      in case last_actions c i of
           Some (a # rest) \<Rightarrow>
             Some (Inr (a, c\<lparr> last_actions := (last_actions c)(i \<mapsto> rest) \<rparr>, closest_var))
         | _ \<Rightarrow>
             bindR (Some (lookup (agent_states c) i)) (\<lambda>st.
               if st = charging then
                 bindR (charging_branch env agent c) (\<lambda>(done, c1).
                   case done of
                     Some action \<Rightarrow> Some (Inr (action, c1, closest_var))
                   | None \<Rightarrow> finish_task env agent c1 closest_var)
               else finish_task env agent c closest_var))"

definition process_agent ::
  "Env \<Rightarrow> Agent \<Rightarrow> Controller \<times> Shelf option option
     \<Rightarrow> (Action \<times> Controller \<times> Shelf option option) run" where
  "process_agent env agent cv =
     (case cv of (c0, closest_var) \<Rightarrow>
        (let i = agent_id agent;
             ca = c0\<lparr> metrics := record_movement (metrics c0) i \<rparr>
         in bindR (idle_handling env agent ca) (\<lambda>(done, c1).
              case done of
                Some action \<Rightarrow> Some (Inr (action, c1, closest_var))
              | None \<Rightarrow>
                  if battery_capacity env = 0 then Some (Inl ZeroDivisionError)
                  else if battery_level agent \<le> 0 then
                    Some (Inr (NOOP, c1\<lparr> metrics := record_battery_failure (metrics c1) i \<rparr>,
                               closest_var))
                  else
                    bindR (Some (battery_check env agent (battery_pct_of env agent) c1)) (\<lambda>c2.
                      bindR (Some (stuck_monitor agent c2)) (\<lambda>c3.
                        choose_action env agent (recovery_bookkeeping agent c3) closest_var)))))"

subsection \<open>\<open>get_actions\<close>\<close>

text \<open>
  The purge of expired reservations that opens \<open>get_actions\<close>: the ids whose entry in
  \<open>shelf_reservation_time\<close> is 20 or more steps old are deleted from both dictionaries; a
  key missing from \<open>reserved_shelves\<close> raises.
\<close>

fun delete_expired :: "nat list \<Rightarrow> Controller \<Rightarrow> py_error + Controller" where
  "delete_expired [] c = Inr c"
| "delete_expired (sid # sids) c =
     (if map_of (reserved_shelves c) sid = None then Inl KeyError
      else delete_expired sids
             (c\<lparr> reserved_shelves := AList.delete sid (reserved_shelves c),
                 shelf_reservation_time := AList.delete sid (shelf_reservation_time c) \<rparr>))"

definition purge_expired :: "Controller \<Rightarrow> py_error + Controller" where
  "purge_expired c =
     (let expired = map fst (filter (\<lambda>(sid, step). current_step c - step \<ge> 20)
                                (shelf_reservation_time c))
      in delete_expired expired c)"

fun process_agents ::
  "Env \<Rightarrow> Agent list \<Rightarrow> Action list \<Rightarrow> Controller \<times> Shelf option option
     \<Rightarrow> (Action list \<times> Controller) run" where
  "process_agents env [] actions cv = Some (Inr (actions, fst cv))"
| "process_agents env (agent # rest) actions cv =
     bindR (process_agent env agent cv) (\<lambda>(action, c, closest_var).
       process_agents env rest (actions @ [action]) (c, closest_var))"

definition get_actions :: "Env \<Rightarrow> Controller \<Rightarrow> (Action list \<times> Controller) run" where
  "get_actions env c =
     bindR (Some (purge_expired c)) (\<lambda>c1.
       process_agents env (agents env) []
         (c1\<lparr> metrics := record_total_steps (metrics c1) \<rparr>, None))"

section \<open>Replaying an action sequence\<close>

text \<open>
  The replay the planner's contract speaks of: \<open>FORWARD\<close> advances one cell in the
  current facing, the two turns rotate the facing with the tables of the validation, any
  other action leaves the pose as it is. \<open>replay_cells\<close> lists the cells entered.
\<close>

fun replay :: "pos \<Rightarrow> Direction \<Rightarrow> Action list \<Rightarrow> pos \<times> Direction" where
  "replay p d [] = (p, d)"
| "replay p d (a # acts) =
     (if a = FORWARD then replay (forward_cell p d) d acts
      else if a = LEFT then replay p (turn_left d) acts
      else if a = RIGHT then replay p (turn_right d) acts
      else replay p d acts)"

fun replay_cells :: "pos \<Rightarrow> Direction \<Rightarrow> Action list \<Rightarrow> pos list" where
  "replay_cells p d [] = []"
| "replay_cells p d (a # acts) =
     (if a = FORWARD then forward_cell p d # replay_cells (forward_cell p d) d acts
      else if a = LEFT then replay_cells p (turn_left d) acts
      else if a = RIGHT then replay_cells p (turn_right d) acts
      else replay_cells p d acts)"

section \<open>Example worlds\<close>

text \<open>
  A 3 by 3 grid. \<open>robot0\<close> stands in the corner \<open>(0, 0)\<close> and faces right.
\<close>

definition robot0 :: Agent where
  "robot0 = \<lparr> agent_id = 0, agent_x = 0, agent_y = 0, agent_dir = RIGHT_dir,
              battery_level = 100, max_carry_weight = 10, carrying_shelf = None,
              is_charging = False \<rparr>"

definition robot1 :: Agent where
  "robot1 = \<lparr> agent_id = 1, agent_x = 2, agent_y = 0, agent_dir = UP,
              battery_level = 100, max_carry_weight = 10, carrying_shelf = None,
              is_charging = False \<rparr>"

definition empty_world :: Env where
  "empty_world = \<lparr> grid_rows = 3, grid_cols = 3, obstacles = [], agents = [robot0],
                   shelfs = [], request_queue = [], goals = [(2, 2)],
                   battery_capacity = 100, env_current_step = 0 \<rparr>"

text \<open>Two robots: the second one occupies \<open>(2, 0)\<close>.\<close>

definition two_robot_world :: Env where
  "two_robot_world = empty_world\<lparr> agents := [robot0, robot1] \<rparr>"

text \<open>One robot and an obstacle at \<open>(1, 0)\<close>, between the robot and \<open>(2, 0)\<close>.\<close>

definition wall_world :: Env where
  "wall_world = empty_world\<lparr> obstacles := [[False, True, False]] \<rparr>"

text \<open>
  One robot that stands on the cell \<open>(0, 1)\<close> of a shelf it does not carry, next to the
  charging station \<open>(0, 0)\<close>, in state \<open>charging\<close>.
\<close>

definition shelf7 :: Shelf where
  "shelf7 = \<lparr> shelf_id = 7, shelf_x = 0, shelf_y = 1, weight = 1 \<rparr>"

definition robot_on_shelf :: Agent where
  "robot_on_shelf = robot0\<lparr> agent_y := 1 \<rparr>"

definition shelf_world :: Env where
  "shelf_world = empty_world\<lparr> agents := [robot_on_shelf], shelfs := [shelf7],
                              request_queue := [shelf7] \<rparr>"

text \<open>
  A world with two shelves, as the helper sees it when it is constructed, and the same
  world later: the first robot has picked up shelf 7 and carried it from its home cell
  \<open>(0, 1)\<close> to \<open>(1, 1)\<close>; the second robot stands at \<open>(2, 0)\<close>.
\<close>

definition shelf8 :: Shelf where
  "shelf8 = \<lparr> shelf_id = 8, shelf_x = 2, shelf_y = 2, weight = 1 \<rparr>"

definition start_world :: Env where
  "start_world = empty_world\<lparr> shelfs := [shelf7, shelf8], request_queue := [shelf7, shelf8] \<rparr>"




section \<open>Notions used in the statements\<close>


text \<open>
  The two dictionaries of the reservation ledger are written and deleted together; a
  well-formed ledger has the same shelf ids in both, each id once.
\<close>

definition ledger_ok :: "Controller \<Rightarrow> bool" where
  "ledger_ok c =
     (distinct (map fst (reserved_shelves c)) \<and> distinct (map fst (shelf_reservation_time c))
      \<and> set (map fst (reserved_shelves c)) = set (map fst (shelf_reservation_time c)))"

text \<open>The shelf ids whose reservation is 20 or more steps old.\<close>

definition expired_ids :: "Controller \<Rightarrow> nat set" where
  "expired_ids c =
     {sid. \<exists>t. (sid, t) \<in> set (shelf_reservation_time c) \<and> current_step c - t \<ge> 20}"

section \<open>Example controllers\<close>

text \<open>
  The controller of \<open>start_world\<close> at step 20: shelf 7 was reserved by agent 0 at step
  0, shelf 8 by agent 1 at step 15.
\<close>

definition ledger_at_20 :: Controller where
  "ledger_at_20 =
     (WarehouseController_init start_world)
       \<lparr> reserved_shelves := [(7, 0), (8, 1)], shelf_reservation_time := [(7, 0), (8, 15)],
         current_step := 20 \<rparr>"



subsection \<open>Example agents with a low or empty battery\<close>

text \<open>A robot with an empty battery in the world without shelves: it has no shelf to carry.\<close>

definition dead_robot :: Agent where
  "dead_robot = robot0\<lparr> battery_level := 0 \<rparr>"

definition idle_dead_world :: Env where
  "idle_dead_world = empty_world\<lparr> agents := [dead_robot] \<rparr>"

text \<open>
  A robot at \<open>(1, 1)\<close> in the world with the two requested shelves, at 21, 19, 9 and 0
  percent of the battery capacity.
\<close>

definition low_robot_1 :: Agent where
  "low_robot_1 = robot0\<lparr> agent_x := 1, agent_y := 1, battery_level := 21 \<rparr>"

definition low_robot_2 :: Agent where
  "low_robot_2 = low_robot_1\<lparr> agent_dir := UP, battery_level := 19 \<rparr>"

definition low_world_1 :: Env where
  "low_world_1 = start_world\<lparr> agents := [low_robot_1] \<rparr>"

definition low_world_2 :: Env where
  "low_world_2 = start_world\<lparr> agents := [low_robot_2] \<rparr>"





text \<open>
  The controller after agent 0, in state \<open>seek_shelf\<close>, has reserved shelf 7 at step 0, taken
  it as its target and planned its way there.
\<close>

definition seeking_controller :: Controller where
  "seeking_controller =
     (WarehouseController_init low_world_1)
       \<lparr> reserved_shelves := [(7, 0)], shelf_reservation_time := [(7, 0)],
         agent_targets := [0 \<mapsto> Some \<lparr> target_id = Some 7, target_position = (0, 1) \<rparr>],
         last_actions := [0 \<mapsto> [LEFT, FORWARD]] \<rparr>"

subsection \<open>The saved context\<close>

text \<open>
  \<open>snapshot_of c agent st d\<close>: the saved context \<open>d\<close> holds the state \<open>st\<close>, the id of the
  shelf the agent carries (or \<open>None\<close>) and, for an agent in state \<open>seek_shelf\<close> with a target,
  the target's shelf id and position; without a target it holds no targets. (In the states
  \<open>deliver\<close> and \<open>return_shelf\<close> the code saves a goal or an origin that it computes anew,
  not the agent's target.)
\<close>

definition snapshot_of :: "Controller \<Rightarrow> Agent \<Rightarrow> AgentState \<Rightarrow> PreCharging \<Rightarrow> bool" where
  "snapshot_of c agent st d =
     (pc_state d = st \<and> pc_shelf_id d = map_option shelf_id (carrying_shelf agent)
      \<and> (case agent_targets c (agent_id agent) of
            Some (Some tgt) \<Rightarrow>
              (if st = seek_shelf then
                 pc_targets d = Some \<lparr> saved_shelf_id = target_id tgt,
                                        saved_shelf_location = Some (target_position tgt),
                                        saved_goal_location = None, saved_shelf_origin = None \<rparr>
               else True)
          | _ \<Rightarrow> pc_targets d = None))"

section \<open>Properties of the planner\<close>

lemma validate_from_Nil: "validate_from rows cols blocked p d [] = True"
  by simp

lemma direct_movement_at_goal:
  "direct_movement agent (agent_x agent, agent_y agent) = []"
  by (simp add: direct_movement_def)

lemma is_direct_path_clear_at_goal: "is_direct_path_clear p p blocked"
  by (cases p) (simp add: is_direct_path_clear_def)

text \<open>
  C8. Both planners answer a goal cell that lies outside the grid, or that is in the blocked
  set computed for the agent, with the empty action sequence. The two guards come before
  the direct-path check and before either search, so the answer is produced whatever the
  searches would do on that input.
\<close>

theorem calculate_movement_rejects_goal:
  assumes "\<not> is_position_valid (mover_rows m) (mover_cols m) goal_pos
           \<or> goal_pos \<in> get_blocked_positions (shelf_helper m) env states agent"
  shows "astar_calculate_movement m env states agent goal_pos = Some (Inr [])
         \<and> bfs_calculate_movement m env states agent goal_pos = Some (Inr [])"
  using assms
  by (auto simp: astar_calculate_movement_def bfs_calculate_movement_def astar_plan_def
        bfs_plan_def Let_def)

theorem calculate_movement_rejects_goal_witness:
  "(2, 0) \<in> get_blocked_positions
                (shelf_helper (ShelfCarryingMovement_init two_robot_world))
                two_robot_world [0 \<mapsto> seek_shelf, 1 \<mapsto> seek_shelf] robot0
   \<and> astar_calculate_movement (ShelfCarryingMovement_init two_robot_world) two_robot_world
         [0 \<mapsto> seek_shelf, 1 \<mapsto> seek_shelf] robot0 (2, 0) = Some (Inr [])
   \<and> bfs_calculate_movement (ShelfCarryingMovement_init two_robot_world) two_robot_world
         [0 \<mapsto> seek_shelf, 1 \<mapsto> seek_shelf] robot0 (2, 0) = Some (Inr [])"
proof -
  have blocked: "(2, 0) \<in> get_blocked_positions
                    (shelf_helper (ShelfCarryingMovement_init two_robot_world))
                    two_robot_world [0 \<mapsto> seek_shelf, 1 \<mapsto> seek_shelf] robot0"
    by (simp add: get_blocked_positions_def two_robot_world_def empty_world_def robot0_def
          robot1_def other_agent_cells_def obstacle_cells_def)
  from blocked calculate_movement_rejects_goal
         [of "ShelfCarryingMovement_init two_robot_world" "(2, 0)" two_robot_world
             "[0 \<mapsto> seek_shelf, 1 \<mapsto> seek_shelf]" robot0]
  show ?thesis by blast
qed

text \<open>
  C10. When the goal is the agent's own cell, inside the grid and not blocked, both
  planners return the empty sequence: the BFS planner by its first test, the A* planner
  because the direct path between equal cells is empty and passes the validation. The
  empty sequence is also what both return when no path exists; the last two conjuncts show
  this on a grid where the robot is walled in by \<open>(1, 0)\<close> and \<open>(0, 1)\<close>.
\<close>

theorem calculate_movement_at_goal:
  assumes "goal_pos = (agent_x agent, agent_y agent)"
    and "is_position_valid (mover_rows m) (mover_cols m) goal_pos"
    and "goal_pos \<notin> get_blocked_positions (shelf_helper m) env states agent"
  shows "astar_calculate_movement m env states agent goal_pos = Some (Inr [])
         \<and> bfs_calculate_movement m env states agent goal_pos = Some (Inr [])
         \<and> astar_plan 3 3 {(1, 0), (0, 1)} robot0 (2, 2) = Some (Inr [])
         \<and> bfs_plan 3 3 {(1, 0), (0, 1)} robot0 (2, 2) = Some (Inr [])"
proof -
  have a: "astar_calculate_movement m env states agent goal_pos = Some (Inr [])"
    using assms
    by (simp add: astar_calculate_movement_def astar_plan_def is_direct_path_clear_at_goal
          direct_movement_at_goal validate_action_sequence_def)
  have b: "bfs_calculate_movement m env states agent goal_pos = Some (Inr [])"
    using assms
    by (simp add: bfs_calculate_movement_def bfs_plan_def bfs_pathfind_movement_def)
  have c: "astar_plan 3 3 {(1, 0), (0, 1)} robot0 (2, 2) = Some (Inr [])"
    by code_simp
  have d: "bfs_plan 3 3 {(1, 0), (0, 1)} robot0 (2, 2) = Some (Inr [])"
    by code_simp
  from a b c d show ?thesis by simp
qed

theorem calculate_movement_at_goal_witness:
  "is_position_valid (mover_rows (ShelfCarryingMovement_init two_robot_world))
     (mover_cols (ShelfCarryingMovement_init two_robot_world)) (0, 0)
   \<and> (0, 0) \<notin> get_blocked_positions
                    (shelf_helper (ShelfCarryingMovement_init two_robot_world))
                    two_robot_world [0 \<mapsto> seek_shelf, 1 \<mapsto> seek_shelf] robot0
   \<and> astar_calculate_movement (ShelfCarryingMovement_init two_robot_world) two_robot_world
         [0 \<mapsto> seek_shelf, 1 \<mapsto> seek_shelf] robot0 (0, 0) = Some (Inr [])
   \<and> bfs_calculate_movement (ShelfCarryingMovement_init two_robot_world) two_robot_world
         [0 \<mapsto> seek_shelf, 1 \<mapsto> seek_shelf] robot0 (0, 0) = Some (Inr [])"
proof -
  have pos: "(0, 0) = (agent_x robot0, agent_y robot0)"
    by (simp add: robot0_def)
  have valid: "is_position_valid (mover_rows (ShelfCarryingMovement_init two_robot_world))
     (mover_cols (ShelfCarryingMovement_init two_robot_world)) (0, 0)"
    by (simp add: is_position_valid_def ShelfCarryingMovement_init_def two_robot_world_def
          empty_world_def)
  have free: "(0, 0) \<notin> get_blocked_positions
                    (shelf_helper (ShelfCarryingMovement_init two_robot_world))
                    two_robot_world [0 \<mapsto> seek_shelf, 1 \<mapsto> seek_shelf] robot0"
    by (simp add: get_blocked_positions_def two_robot_world_def empty_world_def robot0_def
          robot1_def other_agent_cells_def obstacle_cells_def)
  from calculate_movement_at_goal [OF pos valid free] valid free
  show ?thesis by simp
qed

text \<open>
  C1. A non-empty sequence returned by a planner, replayed from the agent's pose, should
  stay on free cells of the grid and end on the goal cell. The A* search does not: its
  path reconstruction collects the predecessors of the goal but not the goal, so the
  actions built from the path stop one cell short. On the 3 by 3 grid with an obstacle at
  \<open>(1, 0)\<close>, the robot at \<open>(0, 0)\<close> facing right and the goal \<open>(2, 0)\<close>, the A*
  planner returns five actions whose replay ends on \<open>(2, 1)\<close>; the BFS planner returns
  seven actions that end on the goal.
\<close>

theorem astar_path_stops_short_of_goal:
  "astar_calculate_movement (ShelfCarryingMovement_init wall_world) wall_world
     [0 \<mapsto> seek_shelf] robot0 (2, 0)
     = Some (Inr [RIGHT, FORWARD, LEFT, FORWARD, FORWARD])
   \<and> fst (replay (agent_x robot0, agent_y robot0) (agent_dir robot0)
             [RIGHT, FORWARD, LEFT, FORWARD, FORWARD]) = (2, 1)
   \<and> bfs_calculate_movement (ShelfCarryingMovement_init wall_world) wall_world
         [0 \<mapsto> seek_shelf] robot0 (2, 0)
       = Some (Inr [RIGHT, FORWARD, LEFT, FORWARD, FORWARD, LEFT, FORWARD])
   \<and> fst (replay (agent_x robot0, agent_y robot0) (agent_dir robot0)
             [RIGHT, FORWARD, LEFT, FORWARD, FORWARD, LEFT, FORWARD]) = (2, 0)"
  by code_simp

text \<open>
  C2. The two planners should report ``no path'' on the same inputs. They differ where
  the goal is next to the agent and the agent's own cell is in its blocked set: the direct
  path is refused because of the start cell, the A* search then reaches the goal in one
  step, and its reconstructed path (the start alone) gives no action, which
  \<open>calculate_movement\<close> reports as no path. The BFS planner returns the turn and the
  step. The input is a robot in state \<open>charging\<close> that stands on the cell of a shelf it
  does not carry, one cell below the station \<open>(0, 0)\<close>.
\<close>

theorem astar_bfs_disagree_next_to_goal:
  "get_blocked_positions (shelf_helper (ShelfCarryingMovement_init shelf_world)) shelf_world
     [0 \<mapsto> charging] robot_on_shelf = {(0, 1)}
   \<and> astar_calculate_movement (ShelfCarryingMovement_init shelf_world) shelf_world
         [0 \<mapsto> charging] robot_on_shelf (0, 0) = Some (Inr [])
   \<and> bfs_calculate_movement (ShelfCarryingMovement_init shelf_world) shelf_world
         [0 \<mapsto> charging] robot_on_shelf (0, 0) = Some (Inr [LEFT, FORWARD])"
  by code_simp

section \<open>Properties of the blocked set\<close>





lemma initialize_shelf_memory_Nil: "initialize_shelf_memory [] = Map.empty"
  by (simp add: initialize_shelf_memory_def)









section \<open>Properties of the reservation ledger\<close>

lemma map_of_filter_keys:
  "map_of (filter (\<lambda>p. fst p \<notin> S) xs) k = (if k \<in> S then None else map_of xs k)"
  by (induction xs) auto

lemma map_of_in_keys: "k \<in> set (map fst xs) \<Longrightarrow> \<exists>v. map_of xs k = Some v"
  by (induction xs) auto

lemma keys_filter:
  "set (map fst (filter (\<lambda>p. fst p \<notin> S) xs)) = set (map fst xs) - S"
  by (induction xs) auto

lemma delete_as_filter: "AList.delete k xs = filter (\<lambda>p. fst p \<notin> {k}) xs"
  by (induction xs) auto

lemma filter_keys_twice:
  "filter (\<lambda>p. fst p \<notin> S) (filter (\<lambda>p. fst p \<notin> {k}) xs) = filter (\<lambda>p. fst p \<notin> insert k S) xs"
  by (induction xs) auto

lemma delete_expired_filter:
  "distinct sids \<Longrightarrow> set sids \<subseteq> fst ` set (reserved_shelves c) \<Longrightarrow>
   delete_expired sids c =
     Inr (c\<lparr> reserved_shelves := filter (\<lambda>p. fst p \<notin> set sids) (reserved_shelves c),
             shelf_reservation_time := filter (\<lambda>p. fst p \<notin> set sids) (shelf_reservation_time c) \<rparr>)"
proof (induction sids arbitrary: c)
  case Nil
  then show ?case by simp
next
  case (Cons sid sids)
  let ?c' = "c\<lparr> reserved_shelves := AList.delete sid (reserved_shelves c),
                 shelf_reservation_time := AList.delete sid (shelf_reservation_time c) \<rparr>"
  from Cons.prems have present: "map_of (reserved_shelves c) sid \<noteq> None"
    by (simp add: map_of_eq_None_iff)
  from Cons.prems have dist: "distinct sids" and fresh: "sid \<notin> set sids" by simp_all
  have sub: "set sids \<subseteq> fst ` set (reserved_shelves ?c')"
  proof
    fix k assume k: "k \<in> set sids"
    with Cons.prems obtain v where "(k, v) \<in> set (reserved_shelves c)" by auto
    moreover from k fresh have "k \<noteq> sid" by blast
    ultimately have "(k, v) \<in> set (reserved_shelves ?c')" by (simp add: delete_as_filter)
    then show "k \<in> fst ` set (reserved_shelves ?c')" by force
  qed
  from dist sub have "delete_expired sids ?c' =
     Inr (?c'\<lparr> reserved_shelves := filter (\<lambda>p. fst p \<notin> set sids) (reserved_shelves ?c'),
               shelf_reservation_time := filter (\<lambda>p. fst p \<notin> set sids) (shelf_reservation_time ?c') \<rparr>)"
    by (rule Cons.IH)
  with present show ?case
    by (simp add: delete_as_filter filter_keys_twice)
qed

lemma purge_expired_filter:
  assumes "ledger_ok c"
  shows "purge_expired c =
     Inr (c\<lparr> reserved_shelves := filter (\<lambda>p. fst p \<notin> expired_ids c) (reserved_shelves c),
             shelf_reservation_time := filter (\<lambda>p. fst p \<notin> expired_ids c) (shelf_reservation_time c) \<rparr>)"
proof -
  let ?expired = "map fst (filter (\<lambda>(sid, step). current_step c - step \<ge> 20) (shelf_reservation_time c))"
  have d: "distinct ?expired"
    using assms by (simp add: ledger_ok_def distinct_map_filter)
  have sub: "set ?expired \<subseteq> fst ` set (reserved_shelves c)"
    using assms by (auto simp: ledger_ok_def)
  have eq: "set ?expired = expired_ids c"
    unfolding expired_ids_def by force
  show ?thesis
    unfolding purge_expired_def Let_def
    using delete_expired_filter [OF d sub] eq by simp
qed

lemma expired_ids_iff:
  assumes "distinct (map fst (shelf_reservation_time c))"
    and m: "map_of (shelf_reservation_time c) sid = Some t"
  shows "(sid \<in> expired_ids c) = (current_step c - t \<ge> 20)"
proof
  assume "sid \<in> expired_ids c"
  then obtain t' where t': "(sid, t') \<in> set (shelf_reservation_time c)"
    and old: "current_step c - t' \<ge> 20"
    unfolding expired_ids_def by blast
  from assms(1) t' have "map_of (shelf_reservation_time c) sid = Some t'"
    by (rule map_of_is_SomeI)
  with m have "t' = t" by simp
  with old show "current_step c - t \<ge> 20" by simp
next
  assume old: "current_step c - t \<ge> 20"
  from m have "(sid, t) \<in> set (shelf_reservation_time c)" by (rule map_of_SomeD)
  with old show "sid \<in> expired_ids c" unfolding expired_ids_def by blast
qed

lemma young_entries:
  fixes rs :: "(nat \<times> nat) list" and ts :: "(nat \<times> int) list"
  assumes keys: "set (map fst rs) = set (map fst ts)"
    and S: "\<And>k t. map_of ts k = Some t \<Longrightarrow> (k \<in> S) = (cur - t \<ge> 20)"
    and r: "map_of (filter (\<lambda>p. fst p \<notin> S) rs) sid = Some a"
  shows "\<exists>t. map_of (filter (\<lambda>p. fst p \<notin> S) ts) sid = Some t \<and> cur - t < 20"
proof -
  have notS: "sid \<notin> S"
  proof
    assume "sid \<in> S"
    then have "map_of (filter (\<lambda>p. fst p \<notin> S) rs) sid = None"
      by (simp only: map_of_filter_keys if_True)
    with r show False by simp
  qed
  then have r0: "map_of rs sid = Some a"
    using r by (simp only: map_of_filter_keys if_False)
  from map_of_SomeD [OF r0] have "fst (sid, a) \<in> fst ` set rs"
    by (rule imageI)
  then have "sid \<in> set (map fst rs)"
    by (simp only: fst_conv set_map)
  then have "sid \<in> set (map fst ts)"
    by (simp only: keys)
  then have "\<exists>t. map_of ts sid = Some t"
    by (rule map_of_in_keys)
  then obtain t where t: "map_of ts sid = Some t"
    by (rule exE)
  from S [OF t] notS have lt: "cur - t < 20"
    by simp
  from notS t have "map_of (filter (\<lambda>p. fst p \<notin> S) ts) sid = Some t"
    by (simp only: map_of_filter_keys if_False)
  with lt show ?thesis by blast
qed

text \<open>
  C5. \<open>get_actions\<close> begins with the purge and runs the agents on the purged ledger.
  On a well-formed ledger the purge does not raise; afterwards every reservation entry has
  a creation step less than 20 steps before the controller's step counter; entries younger
  than 20 steps are kept as they are; and an entry that is 20 or more steps old is gone,
  so that the test both shelf loops make (\<open>reserved_by_other\<close>) is false for that shelf
  and every agent. In particular a reservation made at step 0 is not seen at step 20.
\<close>

theorem purge_leaves_young_reservations:
  assumes ok: "ledger_ok c"
  shows "\<exists>c'. purge_expired c = Inr c' \<and> ledger_ok c' \<and> current_step c' = current_step c
     \<and> get_actions env c
         = process_agents env (agents env) []
             (c'\<lparr> metrics := record_total_steps (metrics c') \<rparr>, None)
     \<and> (\<forall>sid agent. map_of (reserved_shelves c') sid = Some agent \<longrightarrow>
           (\<exists>t. map_of (shelf_reservation_time c') sid = Some t \<and> current_step c' - t < 20))
     \<and> (\<forall>sid t. map_of (shelf_reservation_time c) sid = Some t \<and> current_step c - t < 20 \<longrightarrow>
           map_of (reserved_shelves c') sid = map_of (reserved_shelves c) sid
           \<and> map_of (shelf_reservation_time c') sid = Some t)
     \<and> (\<forall>sid t. map_of (shelf_reservation_time c) sid = Some t \<and> current_step c - t \<ge> 20 \<longrightarrow>
           map_of (reserved_shelves c') sid = None
           \<and> (\<forall>agent shelf. shelf_id shelf = sid \<longrightarrow> \<not> reserved_by_other c' agent shelf))"
proof -
  define S where "S = expired_ids c"
  define rs where "rs = filter (\<lambda>p. fst p \<notin> S) (reserved_shelves c)"
  define ts where "ts = filter (\<lambda>p. fst p \<notin> S) (shelf_reservation_time c)"
  define c' where "c' = c\<lparr> reserved_shelves := rs, shelf_reservation_time := ts \<rparr>"
  have sel: "reserved_shelves c' = rs" "shelf_reservation_time c' = ts"
    "current_step c' = current_step c"
    by (simp_all add: c'_def)
  have p: "purge_expired c = Inr c'"
    unfolding c'_def rs_def ts_def S_def using ok by (rule purge_expired_filter)
  have dt: "distinct (map fst (shelf_reservation_time c))"
    and dr: "distinct (map fst (reserved_shelves c))"
    and keys: "set (map fst (reserved_shelves c)) = set (map fst (shelf_reservation_time c))"
    using ok by (simp_all add: ledger_ok_def)
  have in_S: "\<And>k t. map_of (shelf_reservation_time c) k = Some t
                \<Longrightarrow> (k \<in> S) = (current_step c - t \<ge> 20)"
    unfolding S_def using dt by (rule expired_ids_iff)
  have ok': "ledger_ok c'"
    unfolding ledger_ok_def sel rs_def ts_def
    using dt dr keys by (simp only: keys_filter distinct_map_filter simp_thms)
  have g: "get_actions env c
         = process_agents env (agents env) []
             (c'\<lparr> metrics := record_total_steps (metrics c') \<rparr>, None)"
    unfolding get_actions_def bindR_def p by simp
  have young: "\<forall>sid agent. map_of (reserved_shelves c') sid = Some agent \<longrightarrow>
           (\<exists>t. map_of (shelf_reservation_time c') sid = Some t \<and> current_step c' - t < 20)"
    unfolding sel rs_def ts_def
    using young_entries [OF keys in_S] by blast
  have kept: "\<forall>sid t. map_of (shelf_reservation_time c) sid = Some t \<and> current_step c - t < 20 \<longrightarrow>
           map_of (reserved_shelves c') sid = map_of (reserved_shelves c) sid
           \<and> map_of (shelf_reservation_time c') sid = Some t"
  proof (intro allI impI)
    fix sid t
    assume a: "map_of (shelf_reservation_time c) sid = Some t \<and> current_step c - t < 20"
    then have m: "map_of (shelf_reservation_time c) sid = Some t" by (rule conjunct1)
    from a in_S [OF m] have "sid \<notin> S" by simp
    with m show "map_of (reserved_shelves c') sid = map_of (reserved_shelves c) sid
           \<and> map_of (shelf_reservation_time c') sid = Some t"
      unfolding sel rs_def ts_def by (simp only: map_of_filter_keys if_False simp_thms)
  qed
  have gone: "\<forall>sid t. map_of (shelf_reservation_time c) sid = Some t \<and> current_step c - t \<ge> 20 \<longrightarrow>
           map_of (reserved_shelves c') sid = None
           \<and> (\<forall>agent shelf. shelf_id shelf = sid \<longrightarrow> \<not> reserved_by_other c' agent shelf)"
  proof (intro allI impI)
    fix sid t
    assume a: "map_of (shelf_reservation_time c) sid = Some t \<and> current_step c - t \<ge> 20"
    then have m: "map_of (shelf_reservation_time c) sid = Some t" by (rule conjunct1)
    from a in_S [OF m] have "sid \<in> S" by simp
    then have n: "map_of (reserved_shelves c') sid = None"
      unfolding sel rs_def by (simp only: map_of_filter_keys if_True)
    then show "map_of (reserved_shelves c') sid = None
           \<and> (\<forall>agent shelf. shelf_id shelf = sid \<longrightarrow> \<not> reserved_by_other c' agent shelf)"
      by (simp add: reserved_by_other_def)
  qed
  show ?thesis
    apply (rule exI [of _ c'])
    apply (intro conjI)
    apply (rule p)
    apply (rule ok')
    apply (rule sel(3))
    apply (rule g)
    apply (rule young)
    apply (rule kept)
    apply (rule gone)
    done
qed

theorem purge_leaves_young_reservations_witness:
  "ledger_ok ledger_at_20
   \<and> map_of (reserved_shelves ledger_at_20) 7 = Some 0
   \<and> map_of (shelf_reservation_time ledger_at_20) 7 = Some 0
   \<and> current_step ledger_at_20 = 20
   \<and> (\<exists>c'. purge_expired ledger_at_20 = Inr c'
          \<and> map_of (reserved_shelves c') 7 = None
          \<and> \<not> reserved_by_other c' robot1 shelf7
          \<and> map_of (reserved_shelves c') 8 = Some 1
          \<and> map_of (shelf_reservation_time c') 8 = Some 15)"
proof -
  have ok: "ledger_ok ledger_at_20"
    by (simp add: ledger_ok_def ledger_at_20_def)
  have f: "map_of (reserved_shelves ledger_at_20) 7 = Some 0"
    "map_of (shelf_reservation_time ledger_at_20) 7 = Some 0"
    "map_of (reserved_shelves ledger_at_20) 8 = Some 1"
    "map_of (shelf_reservation_time ledger_at_20) 8 = Some 15"
    "current_step ledger_at_20 = 20"
    by (simp_all add: ledger_at_20_def)
  from purge_leaves_young_reservations [OF ok, of start_world]
  obtain c' where p: "purge_expired ledger_at_20 = Inr c'"
    and kept: "\<forall>sid t. map_of (shelf_reservation_time ledger_at_20) sid = Some t
                 \<and> current_step ledger_at_20 - t < 20 \<longrightarrow>
           map_of (reserved_shelves c') sid = map_of (reserved_shelves ledger_at_20) sid
           \<and> map_of (shelf_reservation_time c') sid = Some t"
    and gone: "\<forall>sid t. map_of (shelf_reservation_time ledger_at_20) sid = Some t
                 \<and> current_step ledger_at_20 - t \<ge> 20 \<longrightarrow>
           map_of (reserved_shelves c') sid = None
           \<and> (\<forall>agent shelf. shelf_id shelf = sid \<longrightarrow> \<not> reserved_by_other c' agent shelf)"
    by (elim exE conjE)
  from gone [rule_format, of 7 0] f have g7: "map_of (reserved_shelves c') 7 = None"
    and g7': "\<forall>agent shelf. shelf_id shelf = 7 \<longrightarrow> \<not> reserved_by_other c' agent shelf"
    by simp_all
  from g7' have nb: "\<not> reserved_by_other c' robot1 shelf7"
    by (simp add: shelf7_def)
  from kept [rule_format, of 8 15] f have k8: "map_of (reserved_shelves c') 8 = Some 1"
    "map_of (shelf_reservation_time c') 8 = Some 15"
    by simp_all
  from p g7 nb k8 have "\<exists>c'. purge_expired ledger_at_20 = Inr c'
          \<and> map_of (reserved_shelves c') 7 = None
          \<and> \<not> reserved_by_other c' robot1 shelf7
          \<and> map_of (reserved_shelves c') 8 = Some 1
          \<and> map_of (shelf_reservation_time c') 8 = Some 15"
    by (intro exI [of _ c'] conjI)
  with ok f show ?thesis by (intro conjI)
qed

section \<open>Properties of the stuck monitor\<close>




section \<open>Properties of the battery handling\<close>

subsection \<open>The battery check, step by step\<close>

lemma closest_station_metrics:
  "get_closest_charging_station (c\<lparr> metrics := m \<rparr>) env agent = get_closest_charging_station c env agent"
  by (simp add: get_closest_charging_station_def Let_def)

lemma closest_station_snapshot:
  "get_closest_charging_station (c\<lparr> pre_charging_data := d \<rparr>) env agent
     = get_closest_charging_station c env agent"
  by (simp add: get_closest_charging_station_def Let_def)

lemma go_charging_station:
  assumes "get_closest_charging_station c env agent = Some station"
  shows "go_charging c env agent =
          c\<lparr> metrics := record_charging_start (metrics c) (agent_id agent),
             agent_states := (agent_states c)(agent_id agent \<mapsto> charging),
             agent_targets := (agent_targets c)(agent_id agent \<mapsto>
                                 Some \<lparr> target_id = None, target_position = station \<rparr>),
             last_actions := (last_actions c)(agent_id agent \<mapsto> []) \<rparr>"
  using assms by (simp add: go_charging_def)

lemma store_result:
  assumes st: "agent_states c (agent_id agent) = Some st"
    and goals: "goal_locations c = g # gs"
  shows "store_pre_charging_state c agent
           = Inr (c\<lparr> pre_charging_data := pre_charging_data (projr (store_pre_charging_state c agent)) \<rparr>)
         \<and> (case pre_charging_data (projr (store_pre_charging_state c agent)) (agent_id agent) of
               None \<Rightarrow> False | Some d \<Rightarrow> snapshot_of c agent st d)"
proof (cases "agent_targets c (agent_id agent)")
  case None
  with st show ?thesis
    by (simp add: store_pre_charging_state_def bindE_def lookup_def Let_def snapshot_of_def)
next
  case (Some t)
  show ?thesis
  proof (cases t)
    case None
    with Some st show ?thesis
      by (simp add: store_pre_charging_state_def bindE_def lookup_def Let_def snapshot_of_def)
  next
    case (Some tgt)
    note tg = \<open>agent_targets c (agent_id agent) = Some t\<close> Some
    show ?thesis
    proof (cases st)
      case seek_shelf
      with tg st show ?thesis
        by (simp add: store_pre_charging_state_def bindE_def lookup_def Let_def snapshot_of_def)
    next
      case deliver
      with tg st goals show ?thesis
        by (cases "carrying_shelf agent")
           (simp_all add: store_pre_charging_state_def bindE_def lookup_def Let_def snapshot_of_def)
    next
      case return_shelf
      with tg st show ?thesis
        by (cases "carrying_shelf agent")
           (simp_all add: store_pre_charging_state_def bindE_def lookup_def Let_def snapshot_of_def
              split: option.splits)
    next
      case charging
      with tg st show ?thesis
        by (simp add: store_pre_charging_state_def bindE_def lookup_def Let_def snapshot_of_def)
    next
      case no_shelf_to_carry
      with tg st show ?thesis
        by (simp add: store_pre_charging_state_def bindE_def lookup_def Let_def snapshot_of_def)
    qed
  qed
qed

lemma snapshot_of_metrics:
  "snapshot_of (c\<lparr> metrics := m \<rparr>) agent st d = snapshot_of c agent st d"
  by (simp add: snapshot_of_def)

lemma has_target_metrics: "has_target (c\<lparr> metrics := m \<rparr>) i = has_target c i"
  by (simp add: has_target_def)

lemma critical_step:
  assumes st: "agent_states c (agent_id agent) = Some st"
    and nc: "\<not> is_charging agent"
    and crit: "pct < critical_battery_threshold"
    and station: "get_closest_charging_station c env agent = Some station"
    and goals: "goal_locations c = g # gs"
  shows "\<exists>D. critical_battery_check env agent pct c
          = Inr (c\<lparr> metrics := record_charging_start
                              (record_critical_battery (metrics c) (agent_id agent) pct) (agent_id agent),
                    pre_charging_data := D,
                    agent_states := (agent_states c)(agent_id agent \<mapsto> charging),
                    agent_targets := (agent_targets c)(agent_id agent \<mapsto>
                                        Some \<lparr> target_id = None, target_position = station \<rparr>),
                    last_actions := (last_actions c)(agent_id agent \<mapsto> []) \<rparr>)
       \<and> (if st \<noteq> charging \<and> has_target c (agent_id agent)
           then (case D (agent_id agent) of None \<Rightarrow> False | Some d \<Rightarrow> snapshot_of c agent st d)
           else D = pre_charging_data c)"
proof -
  let ?i = "agent_id agent"
  let ?c1 = "c\<lparr> metrics := record_critical_battery (metrics c) ?i pct \<rparr>"
  have st1: "agent_states ?c1 ?i = Some st" using st by simp
  have g1: "goal_locations ?c1 = g # gs" using goals by simp
  show ?thesis
  proof (cases "st \<noteq> charging \<and> has_target c ?i")
    case True
    define D where "D = pre_charging_data (projr (store_pre_charging_state ?c1 agent))"
    from store_result [OF st1 g1]
    have s: "store_pre_charging_state ?c1 agent = Inr (?c1\<lparr> pre_charging_data := D \<rparr>)"
      and d: "case D ?i of None \<Rightarrow> False | Some d \<Rightarrow> snapshot_of ?c1 agent st d"
      unfolding D_def by simp_all
    have cl: "get_closest_charging_station (?c1\<lparr> pre_charging_data := D \<rparr>) env agent = Some station"
      using station by (simp only: closest_station_snapshot closest_station_metrics)
    have "critical_battery_check env agent pct c
            = Inr (go_charging (?c1\<lparr> pre_charging_data := D \<rparr>) env agent)"
      using True crit nc st1 s
      by (simp add: critical_battery_check_def bindE_def lookup_def has_target_metrics)
    then have r: "critical_battery_check env agent pct c
          = Inr (c\<lparr> metrics := record_charging_start
                              (record_critical_battery (metrics c) ?i pct) ?i,
                    pre_charging_data := D,
                    agent_states := (agent_states c)(?i \<mapsto> charging),
                    agent_targets := (agent_targets c)(?i \<mapsto>
                                        Some \<lparr> target_id = None, target_position = station \<rparr>),
                    last_actions := (last_actions c)(?i \<mapsto> []) \<rparr>)"
      by (simp add: go_charging_station [OF cl])
    from d have d': "case D ?i of None \<Rightarrow> False | Some d \<Rightarrow> snapshot_of c agent st d"
      by (simp add: snapshot_of_metrics split: option.splits)
    from r d' True show ?thesis
      by (intro exI [of _ D]) simp
  next
    case False
    have cl: "get_closest_charging_station ?c1 env agent = Some station"
      using station by (simp only: closest_station_metrics)
    have "critical_battery_check env agent pct c = Inr (go_charging ?c1 env agent)"
      using False crit nc st1
      by (auto simp add: critical_battery_check_def bindE_def lookup_def has_target_metrics)
    then have r: "critical_battery_check env agent pct c
          = Inr (c\<lparr> metrics := record_charging_start
                              (record_critical_battery (metrics c) ?i pct) ?i,
                    pre_charging_data := pre_charging_data c,
                    agent_states := (agent_states c)(?i \<mapsto> charging),
                    agent_targets := (agent_targets c)(?i \<mapsto>
                                        Some \<lparr> target_id = None, target_position = station \<rparr>),
                    last_actions := (last_actions c)(?i \<mapsto> []) \<rparr>)"
      by (simp add: go_charging_station [OF cl])
    from r False show ?thesis
      by (intro exI [of _ "pre_charging_data c"]) auto
  qed
qed

lemma low_step_when_charging:
  assumes "agent_states c (agent_id agent) = Some charging"
  shows "low_battery_check env agent pct c = Inr c"
  using assms by (simp add: low_battery_check_def bindE_def lookup_def)

lemma low_step:
  assumes st: "agent_states c (agent_id agent) = Some st" and ne: "st \<noteq> charging"
    and nc: "\<not> is_charging agent"
    and low: "needs_charging env agent"
    and station: "get_closest_charging_station c env agent = Some station"
    and goals: "goal_locations c = g # gs"
  shows "\<exists>D. low_battery_check env agent pct c
          = Inr (c\<lparr> metrics := record_charging_start
                              (record_low_battery (metrics c) (agent_id agent) pct) (agent_id agent),
                    pre_charging_data := D,
                    agent_states := (agent_states c)(agent_id agent \<mapsto> charging),
                    agent_targets := (agent_targets c)(agent_id agent \<mapsto>
                                        Some \<lparr> target_id = None, target_position = station \<rparr>),
                    last_actions := (last_actions c)(agent_id agent \<mapsto> []) \<rparr>)
       \<and> (case D (agent_id agent) of None \<Rightarrow> False | Some d \<Rightarrow> snapshot_of c agent st d)"
proof -
  let ?i = "agent_id agent"
  let ?c1 = "c\<lparr> metrics := record_low_battery (metrics c) ?i pct \<rparr>"
  have st1: "agent_states ?c1 ?i = Some st" using st by simp
  have g1: "goal_locations ?c1 = g # gs" using goals by simp
  define D where "D = pre_charging_data (projr (store_pre_charging_state ?c1 agent))"
  from store_result [OF st1 g1]
  have s: "store_pre_charging_state ?c1 agent = Inr (?c1\<lparr> pre_charging_data := D \<rparr>)"
    and d: "case D ?i of None \<Rightarrow> False | Some d \<Rightarrow> snapshot_of ?c1 agent st d"
    unfolding D_def by simp_all
  have cl: "get_closest_charging_station (?c1\<lparr> pre_charging_data := D \<rparr>) env agent = Some station"
    using station by (simp only: closest_station_snapshot closest_station_metrics)
  have "low_battery_check env agent pct c
          = Inr (go_charging (?c1\<lparr> pre_charging_data := D \<rparr>) env agent)"
    using ne low nc st s
    by (simp add: low_battery_check_def bindE_def lookup_def)
  then have r: "low_battery_check env agent pct c
          = Inr (c\<lparr> metrics := record_charging_start
                              (record_low_battery (metrics c) ?i pct) ?i,
                    pre_charging_data := D,
                    agent_states := (agent_states c)(?i \<mapsto> charging),
                    agent_targets := (agent_targets c)(?i \<mapsto>
                                        Some \<lparr> target_id = None, target_position = station \<rparr>),
                    last_actions := (last_actions c)(?i \<mapsto> []) \<rparr>)"
    by (simp add: go_charging_station [OF cl])
  from d have d': "case D ?i of None \<Rightarrow> False | Some d \<Rightarrow> snapshot_of c agent st d"
    by (simp add: snapshot_of_metrics split: option.splits)
  from r d' show ?thesis
    by (intro exI [of _ D]) simp
qed

lemma release_reservation_gone:
  assumes ok: "ledger_ok c"
  shows "\<exists>c'. release_reservation c sid = Inr c'
           \<and> map_of (reserved_shelves c') sid = None
           \<and> map_of (shelf_reservation_time c') sid = None
           \<and> agent_states c' = agent_states c"
proof (cases "map_of (reserved_shelves c) sid")
  case None
  then have "sid \<notin> set (map fst (reserved_shelves c))"
    by (simp add: map_of_eq_None_iff)
  with ok have "sid \<notin> set (map fst (shelf_reservation_time c))"
    by (simp add: ledger_ok_def)
  then have "map_of (shelf_reservation_time c) sid = None"
    by (simp add: map_of_eq_None_iff)
  with None show ?thesis
    by (simp add: release_reservation_def)
next
  case (Some a)
  from map_of_SomeD [OF Some] have "fst (sid, a) \<in> fst ` set (reserved_shelves c)"
    by (rule imageI)
  then have "sid \<in> set (map fst (reserved_shelves c))" by simp
  with ok have "sid \<in> set (map fst (shelf_reservation_time c))"
    by (simp add: ledger_ok_def)
  then have "map_of (shelf_reservation_time c) sid \<noteq> None"
    by (simp add: map_of_eq_None_iff)
  with Some show ?thesis
    by (auto simp add: release_reservation_def delete_as_filter map_of_eq_None_iff)
qed

subsection \<open>An agent with an empty battery\<close>

text \<open>
  C9. The test \<open>battery_level \<le> 0\<close> stands after the handling of an agent that has no shelf
  to carry, and that handling ends the agent's turn. In \<open>idle_dead_world\<close> the only agent has
  battery level 0 and the request queue is empty: the call of \<open>get_actions\<close> answers \<open>RIGHT\<close>
  for it, the first action of its way to the waiting area, and no battery failure is
  recorded.
\<close>

theorem dead_idle_agent_moves:
  "(case get_actions idle_dead_world (WarehouseController_init idle_dead_world) of
      Some (Inr (acts, c1)) \<Rightarrow>
        battery_level dead_robot \<le> 0 \<and> acts = [RIGHT]
        \<and> agent_states c1 0 = Some no_shelf_to_carry
        \<and> battery_failures (metrics c1) = 0
    | _ \<Rightarrow> False)"
  by code_simp

subsection \<open>The critical threshold\<close>




subsection \<open>Reservations at pickup and on the way to charging\<close>

text \<open>
  C3, as stated, fails in its second half. Agent 0 holds the reservation of shelf 7 in
  \<open>seeking_controller\<close>; at 19 percent battery \<open>get_actions\<close> sends it to charging, and
  the entry of shelf 7 is still in both dictionaries of the ledger after the call.
\<close>

theorem charging_keeps_reservation:
  "map_of (reserved_shelves seeking_controller) 7 = Some 0
   \<and> agent_states seeking_controller 0 = Some seek_shelf
   \<and> (case get_actions low_world_2 seeking_controller of
         Some (Inr (acts2, c2)) \<Rightarrow>
           agent_states c2 0 = Some charging \<and> map_of (reserved_shelves c2) 7 = Some 0
           \<and> map_of (shelf_reservation_time c2) 7 = Some 0 \<and> current_step c2 = 0
       | _ \<Rightarrow> False)"
  by code_simp

text \<open>
  C3, amended. On a ledger whose two dictionaries hold the same shelf ids, the pickup block
  of state \<open>seek_shelf\<close>, for an agent standing on the selected shelf \<open>sh\<close> whose weight it
  can carry, answers \<open>TOGGLE_LOAD\<close>, sets the state \<open>deliver\<close> and leaves no entry for \<open>sh\<close>
  in either dictionary. The battery check that sends an agent \<open>a\<close> to charging (below the low
  threshold, so also below the critical one; not charging; a station found) leaves both
  dictionaries of the ledger as they were: a reservation is not released on the way to
  charging, only its expiry removes it.
\<close>

theorem pickup_releases_charging_keeps:
  "(ledger_ok c \<and> (agent_x agent, agent_y agent) = (shelf_x sh, shelf_y sh)
      \<and> weight sh \<le> max_carry_weight agent
    \<longrightarrow> (\<exists>c'. seek_pickup agent action c (Some sh) = Inr (TOGGLE_LOAD, c')
            \<and> agent_states c' (agent_id agent) = Some deliver
            \<and> map_of (reserved_shelves c') (shelf_id sh) = None
            \<and> map_of (shelf_reservation_time c') (shelf_id sh) = None))
   \<and> (agent_states c (agent_id a) = Some st \<and> st \<noteq> charging \<and> \<not> is_charging a
      \<and> battery_pct_of env a < low_battery_threshold
      \<and> get_closest_charging_station c env a = Some station \<and> goal_locations c \<noteq> []
    \<longrightarrow> (\<exists>c'. battery_check env a (battery_pct_of env a) c = Inr c'
            \<and> agent_states c' (agent_id a) = Some charging
            \<and> reserved_shelves c' = reserved_shelves c
            \<and> shelf_reservation_time c' = shelf_reservation_time c))"
proof (intro conjI impI)
  assume a: "ledger_ok c \<and> (agent_x agent, agent_y agent) = (shelf_x sh, shelf_y sh)
      \<and> weight sh \<le> max_carry_weight agent"
  let ?c1 = "c\<lparr> agent_states := (agent_states c)(agent_id agent \<mapsto> deliver),
                 last_actions := (last_actions c)(agent_id agent \<mapsto> []) \<rparr>"
  from a have "ledger_ok ?c1" by (simp add: ledger_ok_def)
  from release_reservation_gone [OF this, of "shelf_id sh"]
  obtain c' where rel: "release_reservation ?c1 (shelf_id sh) = Inr c'"
    and g1: "map_of (reserved_shelves c') (shelf_id sh) = None"
    and g2: "map_of (shelf_reservation_time c') (shelf_id sh) = None"
    and s: "agent_states c' = agent_states ?c1"
    by (elim exE conjE)
  from a rel have "seek_pickup agent action c (Some sh) = Inr (TOGGLE_LOAD, c')"
    by (simp add: seek_pickup_def bindE_def Let_def)
  moreover from s have "agent_states c' (agent_id agent) = Some deliver" by simp
  ultimately show "\<exists>c'. seek_pickup agent action c (Some sh) = Inr (TOGGLE_LOAD, c')
            \<and> agent_states c' (agent_id agent) = Some deliver
            \<and> map_of (reserved_shelves c') (shelf_id sh) = None
            \<and> map_of (shelf_reservation_time c') (shelf_id sh) = None"
    using g1 g2 by (intro exI [of _ c'] conjI)
next
  assume h: "agent_states c (agent_id a) = Some st \<and> st \<noteq> charging \<and> \<not> is_charging a
      \<and> battery_pct_of env a < low_battery_threshold
      \<and> get_closest_charging_station c env a = Some station \<and> goal_locations c \<noteq> []"
  from h have st: "agent_states c (agent_id a) = Some st" and ne: "st \<noteq> charging"
    and nc: "\<not> is_charging a" and low: "needs_charging env a"
    and station: "get_closest_charging_station c env a = Some station"
    by (simp_all add: needs_charging_def)
  from h obtain g gs where g: "goal_locations c = g # gs"
    by (cases "goal_locations c") simp_all
  let ?pct = "battery_pct_of env a"
  show "\<exists>c'. battery_check env a ?pct c = Inr c'
            \<and> agent_states c' (agent_id a) = Some charging
            \<and> reserved_shelves c' = reserved_shelves c
            \<and> shelf_reservation_time c' = shelf_reservation_time c"
  proof (cases "?pct < critical_battery_threshold")
    case True
    from critical_step [OF st nc True station g]
    obtain D where r: "critical_battery_check env a ?pct c
          = Inr (c\<lparr> metrics := record_charging_start
                              (record_critical_battery (metrics c) (agent_id a) ?pct) (agent_id a),
                    pre_charging_data := D,
                    agent_states := (agent_states c)(agent_id a \<mapsto> charging),
                    agent_targets := (agent_targets c)(agent_id a \<mapsto>
                                        Some \<lparr> target_id = None, target_position = station \<rparr>),
                    last_actions := (last_actions c)(agent_id a \<mapsto> []) \<rparr>)"
      by (elim exE conjE)
    then show ?thesis
      by (simp add: battery_check_def bindE_def low_step_when_charging)
  next
    case False
    then have skip: "critical_battery_check env a ?pct c = Inr c"
      by (simp add: critical_battery_check_def)
    from low_step [OF st ne nc low station g, of ?pct]
    obtain D where r: "low_battery_check env a ?pct c
          = Inr (c\<lparr> metrics := record_charging_start
                              (record_low_battery (metrics c) (agent_id a) ?pct) (agent_id a),
                    pre_charging_data := D,
                    agent_states := (agent_states c)(agent_id a \<mapsto> charging),
                    agent_targets := (agent_targets c)(agent_id a \<mapsto>
                                        Some \<lparr> target_id = None, target_position = station \<rparr>),
                    last_actions := (last_actions c)(agent_id a \<mapsto> []) \<rparr>)"
      by (elim exE conjE)
    with skip show ?thesis
      by (simp add: battery_check_def bindE_def)
  qed
qed

theorem pickup_releases_charging_keeps_witness:
  "ledger_ok seeking_controller
   \<and> (agent_x robot_on_shelf, agent_y robot_on_shelf) = (shelf_x shelf7, shelf_y shelf7)
   \<and> weight shelf7 \<le> max_carry_weight robot_on_shelf
   \<and> map_of (reserved_shelves seeking_controller) (shelf_id shelf7) = Some 0
   \<and> (\<exists>c'. seek_pickup robot_on_shelf NOOP seeking_controller (Some shelf7) = Inr (TOGGLE_LOAD, c')
          \<and> agent_states c' (agent_id robot_on_shelf) = Some deliver
          \<and> map_of (reserved_shelves c') (shelf_id shelf7) = None
          \<and> map_of (shelf_reservation_time c') (shelf_id shelf7) = None)
   \<and> agent_states seeking_controller (agent_id low_robot_2) = Some seek_shelf
   \<and> \<not> is_charging low_robot_2
   \<and> battery_pct_of low_world_2 low_robot_2 < low_battery_threshold
   \<and> get_closest_charging_station seeking_controller low_world_2 low_robot_2 = Some (0, 0)
   \<and> goal_locations seeking_controller \<noteq> []
   \<and> (\<exists>c'. battery_check low_world_2 low_robot_2 (battery_pct_of low_world_2 low_robot_2)
                seeking_controller = Inr c'
          \<and> agent_states c' (agent_id low_robot_2) = Some charging
          \<and> reserved_shelves c' = reserved_shelves seeking_controller
          \<and> shelf_reservation_time c' = shelf_reservation_time seeking_controller)"
proof -
  have p1: "ledger_ok seeking_controller"
    by code_simp
  have p2: "(agent_x robot_on_shelf, agent_y robot_on_shelf) = (shelf_x shelf7, shelf_y shelf7)"
    by code_simp
  have p3: "weight shelf7 \<le> max_carry_weight robot_on_shelf"
    by code_simp
  have p4: "map_of (reserved_shelves seeking_controller) (shelf_id shelf7) = Some 0"
    by code_simp
  have h1: "agent_states seeking_controller (agent_id low_robot_2) = Some seek_shelf"
    by code_simp
  have h2: "\<not> is_charging low_robot_2"
    by code_simp
  have h3: "battery_pct_of low_world_2 low_robot_2 < low_battery_threshold"
    by code_simp
  have h4: "get_closest_charging_station seeking_controller low_world_2 low_robot_2 = Some (0, 0)"
    by code_simp
  have h5: "goal_locations seeking_controller \<noteq> []"
    by code_simp
  note t = pickup_releases_charging_keeps
             [of seeking_controller robot_on_shelf shelf7 NOOP low_robot_2 seek_shelf low_world_2 "(0, 0)"]
  from t p1 p2 p3
  have a: "\<exists>c'. seek_pickup robot_on_shelf NOOP seeking_controller (Some shelf7) = Inr (TOGGLE_LOAD, c')
          \<and> agent_states c' (agent_id robot_on_shelf) = Some deliver
          \<and> map_of (reserved_shelves c') (shelf_id shelf7) = None
          \<and> map_of (shelf_reservation_time c') (shelf_id shelf7) = None"
    by blast
  from t h1 h2 h3 h4 h5
  have b: "\<exists>c'. battery_check low_world_2 low_robot_2 (battery_pct_of low_world_2 low_robot_2)
                seeking_controller = Inr c'
          \<and> agent_states c' (agent_id low_robot_2) = Some charging
          \<and> reserved_shelves c' = reserved_shelves seeking_controller
          \<and> shelf_reservation_time c' = shelf_reservation_time seeking_controller"
    by blast
  from p1 p2 p3 p4 a h1 h2 h3 h4 h5 b show ?thesis
    by (intro conjI)
qed

end
